theory Spec2Isabelle
  imports Main "HOL-Library.Word" "HOL-Library.Monad_Syntax"
begin

unbundle bit_operations_syntax

section \<open>Card session layer (scardhal.c)\<close>

text \<open>
  The hardware abstraction layer keeps, at file scope, the flag \<open>initialized\<close>, the count
  \<open>instances\<close> of connected slots, the array \<open>hCards\<close> of card handles (0 for none) and the
  array \<open>hCardsTransactions\<close> of transaction depths, both indexed by the slot number. The
  PC/SC driver is the environment: the model records the driver calls the library makes on
  a card (\<open>calls\<close>) and reads the driver's answers to \<open>SCardTransmit\<close> from a script
  (\<open>script\<close>), one entry per call; \<open>context_ok\<close> says whether \<open>SCardEstablishContext\<close>
  succeeds and \<open>connect_handle\<close> what the static function \<open>Connect\<close> returns for a slot (0
  when no card can be connected); \<open>junk\<close> are the bytes found in memory that the library
  reads before writing it.

  A slot is a \<open>nat\<close>; the arrays have \<open>MAX_READERS = 16\<close> entries and the C code never
  checks the index, so the model keeps them as total functions of the slot number.
\<close>

type_synonym byte = "8 word"

datatype scard_error =
    SCARD_E_NO_SMARTCARD
  | SCARD_E_NOT_READY
  | SCARD_E_READER_UNAVAILABLE
  | SCARD_W_REMOVED_CARD
  | SCARD_E_OTHER

text \<open>
  What one call of \<open>SCardTransmit\<close> can answer:
  \<^item> \<open>Transmitted data sw1 sw2\<close>: \<open>SCARD_S_SUCCESS\<close>, the response being \<open>data\<close> followed by
    the two status bytes (so \<open>tLen = length data + 2\<close>);
  \<^item> \<open>Reset_Card reconnect_ok relock_ok\<close>: \<open>SCARD_W_RESET_CARD\<close>; the two flags say whether the
    \<open>SCardReconnect\<close> that follows, and the \<open>SCardBeginTransaction\<close> after it (when the
    library calls it), return \<open>SCARD_S_SUCCESS\<close>;
  \<^item> \<open>Transmit_Error e\<close>: any other return code.
\<close>

datatype driver_answer =
    Transmitted "byte list" byte byte
  | Reset_Card bool bool
  | Transmit_Error scard_error

datatype driver_call =
    SCardBeginTransaction nat
  | SCardEndTransaction nat
  | SCardTransmit nat "byte list"
  | SCardReconnect nat
  | SCardDisconnect nat

record hal =
  initialized :: bool
  hCards :: "nat \<Rightarrow> nat"
  hCardsTransactions :: "nat \<Rightarrow> int"
  instances :: int
  script :: "driver_answer list"
  calls :: "driver_call list"
  junk :: "nat \<Rightarrow> byte"
  context_ok :: bool
  connect_handle :: "nat \<Rightarrow> nat"

definition C_OK :: int where "C_OK = 0x0000"
definition C_NOT_INITIALIZED :: int where "C_NOT_INITIALIZED = 0x0002"
definition C_NO_CARD :: int where "C_NO_CARD = 0x0004"
definition C_WRONG_LENGTH :: int where "C_WRONG_LENGTH = 0x6282"
definition C_FILE_NOT_FOUND :: int where "C_FILE_NOT_FOUND = 0x6A82"
definition C_RECORD_NOT_FOUND :: int where "C_RECORD_NOT_FOUND = 0x6A83"
definition C_WRONG_LEN :: int where "C_WRONG_LEN = 0x6A85"
definition C_UNKNOWN_OBJECT :: int where "C_UNKNOWN_OBJECT = 0x6A88"
definition C_GENERIC_ERROR :: int where "C_GENERIC_ERROR = 0xFFFF"

definition SW_OK :: int where "SW_OK = 0x9000"
definition SW_WRONG_LENGTH :: int where "SW_WRONG_LENGTH = 0x6282"
definition SW_AUTH_FAILED :: int where "SW_AUTH_FAILED = 0x6300"

definition EXCHANGE_BUFFER :: nat where "EXCHANGE_BUFFER = 128"

subsection \<open>Nested transactions\<close>

text \<open>
  The depth counter is a C \<open>int\<close>. \<open>int_incr\<close> is \<open>+= 1\<close> on a 32-bit two's complement
  \<open>int\<close>, as the compiled code performs it: it wraps from \<open>2^31 - 1\<close> to \<open>- 2^31\<close>.
\<close>

definition int_incr :: "int \<Rightarrow> int" where
  "int_incr d = (d + 1 + 2 ^ 31) mod 2 ^ 32 - 2 ^ 31"

definition log_call :: "driver_call \<Rightarrow> hal \<Rightarrow> hal" where
  "log_call c s = s\<lparr>calls := calls s @ [c]\<rparr>"

definition set_depth :: "nat \<Rightarrow> int \<Rightarrow> hal \<Rightarrow> hal" where
  "set_depth nSlot d s = s\<lparr>hCardsTransactions := (hCardsTransactions s)(nSlot := d)\<rparr>"

definition BeginTransactionML :: "nat \<Rightarrow> hal \<Rightarrow> int \<times> hal" where
  "BeginTransactionML nSlot s =
     (let s1 = (if hCardsTransactions s nSlot = 0
                then log_call (SCardBeginTransaction nSlot) s else s)
      in (C_OK, set_depth nSlot (int_incr (hCardsTransactions s1 nSlot)) s1))"

definition EndTransactionML :: "nat \<Rightarrow> hal \<Rightarrow> int \<times> hal" where
  "EndTransactionML nSlot s =
     (if hCardsTransactions s nSlot > 0
      then (let s1 = set_depth nSlot (hCardsTransactions s nSlot - 1) s
            in (C_OK, if hCardsTransactions s1 nSlot = 0
                      then log_call (SCardEndTransaction nSlot) s1 else s1))
      else (C_OK, s))"

datatype tx_call = Begin | End

fun tx_step :: "nat \<Rightarrow> tx_call \<Rightarrow> hal \<Rightarrow> hal" where
  "tx_step nSlot Begin s = snd (BeginTransactionML nSlot s)"
| "tx_step nSlot End s = snd (EndTransactionML nSlot s)"

fun tx_run :: "nat \<Rightarrow> tx_call list \<Rightarrow> hal \<Rightarrow> hal" where
  "tx_run nSlot [] s = s"
| "tx_run nSlot (c # cs) s = tx_run nSlot cs (tx_step nSlot c s)"

definition depth :: "nat \<Rightarrow> hal \<Rightarrow> int" where
  "depth nSlot s = hCardsTransactions s nSlot"

subsection \<open>Initialize and FinalizeML\<close>

text \<open>
  \<open>Initialize\<close>: the two \<open>memset\<close> calls of the first initialization clear the two arrays
  (their length argument is larger than the arrays; the model clears the arrays only).
  \<open>defSlot\<close> is not read by the slot-taking functions and is left out.
\<close>

definition C_CONTEXT_ERROR :: int where "C_CONTEXT_ERROR = 0x0001"
definition C_ALREADY_INITIALIZED :: int where "C_ALREADY_INITIALIZED = 0x0003"

definition Initialize :: "nat \<Rightarrow> hal \<Rightarrow> int \<times> hal" where
  "Initialize nSlot s =
     (if instances s = 0 \<and> \<not> context_ok s then (C_CONTEXT_ERROR, s\<lparr>initialized := False\<rparr>)
      else (let s1 = (if instances s = 0
                      then s\<lparr>hCards := (\<lambda>_. 0), hCardsTransactions := (\<lambda>_. 0)\<rparr> else s)
            in if hCards s1 nSlot \<noteq> 0 then (C_ALREADY_INITIALIZED, s1)
               else (let s2 = s1\<lparr>hCards := (hCards s1)(nSlot := connect_handle s1 nSlot)\<rparr>
                     in if hCards s2 nSlot \<noteq> 0
                        then (C_OK, s2\<lparr>instances := instances s2 + 1, initialized := True\<rparr>)
                        else (C_NO_CARD, s2))))"

definition FinalizeML :: "nat \<Rightarrow> hal \<Rightarrow> int \<times> hal" where
  "FinalizeML nSlot s =
     (if hCards s nSlot = 0 then (C_NOT_INITIALIZED, s)
      else (let s1 = log_call (SCardDisconnect nSlot) s;
                s2 = s1\<lparr>hCards := (hCards s1)(nSlot := 0), instances := instances s1 - 1\<rparr>
            in (C_OK, if instances s2 = 0 then s2\<lparr>initialized := False\<rparr> else s2)))"

subsection \<open>SendAPDUML\<close>

text \<open>
  A library call that does not return normally has the value \<open>None\<close>: the driver script
  ran out before the call was over (the retry loop of \<open>SendAPDUML\<close> has no bound of its
  own), or the C code left its buffers (an APDU longer than the 256 bytes of
  \<open>pSendBuffer\<close>, an input buffer shorter than \<open>Lc\<close>, a null \<open>pLe\<close> read).

  \<open>apdu_out\<close> holds what \<open>SendAPDUML\<close> hands back: the return code and the contents of
  the three out-parameters \<open>*pLe\<close> (\<open>None\<close> for a null pointer), \<open>outBuffer\<close> (\<open>None\<close> for a
  null pointer) and \<open>*pSW\<close>.
\<close>

record apdu_out =
  rv_of :: int
  Le_of :: "byte option"
  out_of :: "byte list option"
  SW_of :: int

definition memcpy :: "byte list \<Rightarrow> byte list \<Rightarrow> nat \<Rightarrow> byte list" where
  "memcpy dst src n = take n src @ drop n dst"

definition build_apdu :: "32 word \<Rightarrow> byte \<Rightarrow> byte option \<Rightarrow> byte list \<Rightarrow> byte list option" where
  "build_apdu cmd Lc pLe inBuffer =
     (let hdr = [ucast (drop_bit 24 (cmd AND 0xff000000)) :: byte,
                 ucast (drop_bit 16 (cmd AND 0x00ff0000)),
                 ucast (drop_bit 8 (cmd AND 0x0000ff00)),
                 ucast (cmd AND 0x000000ff)];
          body = (if Lc \<noteq> 0 then Lc # take (unat Lc) inBuffer else []);
          le = (if hdr ! 1 \<noteq> 0xa4 then [case pLe of None \<Rightarrow> 0 | Some v \<Rightarrow> v] else [])
      in if length inBuffer < unat Lc \<or> 256 < length (hdr @ body @ le) then None
         else Some (hdr @ body @ le))"

text \<open>
  \<open>status_word sw1 sw2\<close> is \<open>(tmpBuf[tLen-2]<<8)|tmpBuf[tLen-1]\<close>.
\<close>

definition status_word :: "byte \<Rightarrow> byte \<Rightarrow> int" where
  "status_word sw1 sw2 = push_bit 8 (uint sw1) OR uint sw2"

text \<open>
  The code after a successful transmit: the status word is stored; when the response
  carries data (\<open>tLen > 2\<close>), \<open>min *pLe (tLen-2)\<close> bytes go to \<open>outBuffer\<close> and \<open>*pLe\<close> is
  lowered to \<open>tLen-2\<close> when it was larger or when there is no \<open>outBuffer\<close>.
\<close>

definition deliver :: "byte list \<Rightarrow> byte \<Rightarrow> byte \<Rightarrow> byte option \<Rightarrow> byte list option \<Rightarrow> apdu_out option" where
  "deliver data sw1 sw2 pLe outBuffer =
     (let SW = status_word sw1 sw2; n = length data in
      if n = 0 then Some \<lparr>rv_of = C_OK, Le_of = pLe, out_of = outBuffer, SW_of = SW\<rparr>
      else case outBuffer of
        Some buf \<Rightarrow>
          (case pLe of
             None \<Rightarrow> None
           | Some le \<Rightarrow>
               Some \<lparr>rv_of = C_OK,
                     Le_of = Some (if n < unat le then of_nat n else le),
                     out_of = Some (memcpy buf data (if n < unat le then n else unat le)),
                     SW_of = SW\<rparr>)
      | None \<Rightarrow>
          Some \<lparr>rv_of = C_OK, Le_of = map_option (\<lambda>_. of_nat n) pLe,
                out_of = None, SW_of = SW\<rparr>)"

text \<open>
  The loop at the label \<open>retryTransmit\<close>, by recursion on the driver's answers still to
  come. On every failure \<open>*pLe\<close> is set to 0 first. On \<open>SCARD_W_RESET_CARD\<close> the card is
  reconnected, the driver lock is taken again when the slot's depth is positive (its return
  code then replaces the one of the reconnect), and on \<open>SCARD_S_SUCCESS\<close> the same buffer
  is transmitted again; otherwise the case falls through to \<open>C_NO_CARD\<close>.
\<close>

fun retryTransmit ::
  "nat \<Rightarrow> byte list \<Rightarrow> byte option \<Rightarrow> byte list option \<Rightarrow> int \<Rightarrow> driver_answer list \<Rightarrow> hal
     \<Rightarrow> (apdu_out \<times> hal) option" where
  "retryTransmit nSlot apdu pLe outBuffer SW [] s = None"
| "retryTransmit nSlot apdu pLe outBuffer SW (a # rest) s =
     (let s1 = log_call (SCardTransmit nSlot apdu) (s\<lparr>script := rest\<rparr>);
          pLe0 = map_option (\<lambda>_. 0) pLe
      in case a of
        Transmitted data sw1 sw2 \<Rightarrow>
          map_option (\<lambda>r. (r, s1)) (deliver data sw1 sw2 pLe outBuffer)
      | Reset_Card reconnect_ok relock_ok \<Rightarrow>
          (let s2 = log_call (SCardReconnect nSlot) s1;
               s3 = (if hCardsTransactions s2 nSlot > 0
                     then log_call (SCardBeginTransaction nSlot) s2 else s2);
               ok = (if hCardsTransactions s2 nSlot > 0 then relock_ok else reconnect_ok)
           in if ok then retryTransmit nSlot apdu pLe0 outBuffer SW rest s3
              else Some (\<lparr>rv_of = C_NO_CARD, Le_of = pLe0, out_of = outBuffer, SW_of = SW\<rparr>, s3))
      | Transmit_Error e \<Rightarrow>
          Some (\<lparr>rv_of = (if e = SCARD_E_OTHER then C_GENERIC_ERROR else C_NO_CARD),
                 Le_of = pLe0, out_of = outBuffer, SW_of = SW\<rparr>, s1))"

definition SendAPDUML ::
  "nat \<Rightarrow> 32 word \<Rightarrow> byte \<Rightarrow> byte option \<Rightarrow> byte list \<Rightarrow> byte list option \<Rightarrow> int \<Rightarrow> hal
     \<Rightarrow> (apdu_out \<times> hal) option" where
  "SendAPDUML nSlot cmd Lc pLe inBuffer outBuffer SW s =
     (case build_apdu cmd Lc pLe inBuffer of
        None \<Rightarrow> None
      | Some apdu \<Rightarrow> retryTransmit nSlot apdu pLe outBuffer SW (script s) s)"

section \<open>Card commands (libsiaecard.c)\<close>

definition APDU_SELECT :: "32 word" where "APDU_SELECT = 0x00a40000"
definition APDU_READBINARY :: "32 word" where "APDU_READBINARY = 0x00b00000"
definition APDU_READRECORD :: "32 word" where "APDU_READRECORD = 0x00b20000"
definition APDU_VERIFYPIN :: "32 word" where "APDU_VERIFYPIN = 0x00200000"
definition APDU_MSE_RESTORE :: "32 word" where "APDU_MSE_RESTORE = 0x0022f301"
definition APDU_MSE :: "32 word" where "APDU_MSE = 0x0022f1b8"
definition APDU_SIGN :: "32 word" where "APDU_SIGN = 0x002a8086"

definition FID_MF :: "16 word" where "FID_MF = 0x3f00"
definition FID_SIAE_APP_DOMAIN :: "16 word" where "FID_SIAE_APP_DOMAIN = 0x0000"
definition FID_P11_APP_DOMAIN :: "16 word" where "FID_P11_APP_DOMAIN = 0x1111"

text \<open>
  Buffers are byte lists. \<open>memcpy_at dst off src n\<close> is \<open>memcpy(dst+off, src, n)\<close>; the
  model does not represent a write past the end of \<open>dst\<close>. A local array that the C code
  reads before writing it starts with the indeterminate bytes \<open>junk\<close> of the state.
\<close>

definition memcpy_at :: "byte list \<Rightarrow> nat \<Rightarrow> byte list \<Rightarrow> nat \<Rightarrow> byte list" where
  "memcpy_at dst off src n = take off dst @ take n src @ drop (off + n) dst"

definition local_array :: "hal \<Rightarrow> nat \<Rightarrow> byte list" where
  "local_array s n = map (junk s) [0..<n]"

definition SelectML :: "16 word \<Rightarrow> nat \<Rightarrow> hal \<Rightarrow> (int \<times> hal) option" where
  "SelectML fid nSlot s =
     (let pSend = [ucast (drop_bit 8 (fid AND 0xff00)) :: byte, ucast (fid AND 0x00ff)];
          s1 = snd (BeginTransactionML nSlot s)
      in do {
        (r, s2) \<leftarrow> SendAPDUML nSlot APDU_SELECT 2 None pSend None 0 s1;
        let s3 = snd (EndTransactionML nSlot s2);
        Some (if rv_of r \<noteq> C_OK then rv_of r
              else if SW_of r \<noteq> 0x9000 then SW_of r
              else C_OK, s3)
      })"

text \<open>
  The body of \<open>ReadBinaryML\<close> between \<open>BeginTransactionML\<close> and the label \<open>CleanUp\<close>:
  the \<open>while\<close> loop over full blocks, then the last short block. The result is
  \<open>(rv, Buffer, *Len)\<close>. \<open>dimDati\<close> is below 128 when the last block is asked for, so the
  byte that \<open>(BYTE*)&dimDati\<close> points to is all of it (little-endian).
\<close>

function ReadBinary_blocks ::
  "nat \<Rightarrow> 16 word \<Rightarrow> nat \<Rightarrow> nat \<Rightarrow> byte \<Rightarrow> int \<Rightarrow> byte list \<Rightarrow> byte list \<Rightarrow> nat \<Rightarrow> hal
     \<Rightarrow> ((int \<times> byte list \<times> nat) \<times> hal) option" where
  "ReadBinary_blocks nSlot Offset1 dimDati letti blockLen SW tmpBuffer Buffer Len s =
     (if EXCHANGE_BUFFER \<le> dimDati then
        do {
          (r, s1) \<leftarrow> SendAPDUML nSlot (APDU_READBINARY OR ucast Offset1) 0 (Some blockLen) []
                        (Some tmpBuffer) SW s;
          tmp1 \<leftarrow> out_of r;
          blockLen1 \<leftarrow> Le_of r;
          if rv_of r \<noteq> C_OK then Some ((rv_of r, Buffer, Len), s1)
          else if SW_of r \<noteq> SW_OK \<and> SW_of r \<noteq> SW_WRONG_LENGTH
          then Some ((SW_of r, Buffer, Len), s1)
          else if unat blockLen1 \<noteq> EXCHANGE_BUFFER
          then Some ((C_WRONG_LENGTH, memcpy_at Buffer letti tmp1 (unat blockLen1), letti), s1)
          else ReadBinary_blocks nSlot (Offset1 + ucast blockLen1) (dimDati - EXCHANGE_BUFFER)
                 (letti + unat blockLen1) blockLen1 (SW_of r) tmp1
                 (memcpy_at Buffer letti tmp1 (unat blockLen1)) Len s1
        }
      else if 0 < dimDati then
        do {
          (r, s1) \<leftarrow> SendAPDUML nSlot (APDU_READBINARY OR ucast Offset1) 0 (Some (of_nat dimDati)) []
                        (Some tmpBuffer) SW s;
          tmp1 \<leftarrow> out_of r;
          dimDati1 \<leftarrow> Le_of r;
          if rv_of r \<noteq> C_OK then Some ((rv_of r, Buffer, Len), s1)
          else if SW_of r \<noteq> SW_OK \<and> SW_of r \<noteq> SW_WRONG_LENGTH
          then Some ((SW_of r, Buffer, Len), s1)
          else Some ((C_OK, memcpy_at Buffer letti tmp1 (unat dimDati1), letti + unat dimDati1), s1)
        }
      else Some ((C_OK, Buffer, letti), s))"
  by pat_completeness auto
termination
  by (relation "measure (\<lambda>(nSlot, Offset1, dimDati, rest). dimDati)")
     (auto simp: EXCHANGE_BUFFER_def)

text \<open>
  \<open>Buffer\<close> and \<open>Len\<close> are pointers: \<open>None\<close> is the null pointer.
\<close>

definition ReadBinaryML ::
  "16 word \<Rightarrow> byte list option \<Rightarrow> nat option \<Rightarrow> nat \<Rightarrow> hal
     \<Rightarrow> ((int \<times> byte list option \<times> nat option) \<times> hal) option" where
  "ReadBinaryML Offset Buffer Len nSlot s =
     (if \<not> initialized s then Some ((C_NOT_INITIALIZED, Buffer, Len), s)
      else case Buffer of
        None \<Rightarrow> Some ((C_GENERIC_ERROR, Buffer, Len), s)
      | Some buf \<Rightarrow>
         (case Len of
            None \<Rightarrow> Some ((C_GENERIC_ERROR, Buffer, Len), s)
          | Some len \<Rightarrow>
              if len = 0 then Some ((C_GENERIC_ERROR, Buffer, Len), s)
              else do {
                ((rv, buf1, len1), s2) \<leftarrow>
                   ReadBinary_blocks nSlot Offset len 0 (of_nat EXCHANGE_BUFFER) 0
                     (local_array s 256) buf len (snd (BeginTransactionML nSlot s));
                Some ((rv, Some buf1, Some len1), snd (EndTransactionML nSlot s2))
              }))"

text \<open>
  \<open>GetSNML\<close>: the variable \<open>rv\<close> is assigned on the failure paths and never returned.
\<close>

definition GetSNML :: "byte list \<Rightarrow> nat \<Rightarrow> hal \<Rightarrow> ((int \<times> byte list) \<times> hal) option" where
  "GetSNML serial nSlot s =
     (if \<not> initialized s then Some ((C_NOT_INITIALIZED, serial), s)
      else do {
        let s0 = snd (BeginTransactionML nSlot s);
        (x1, s1) \<leftarrow> SelectML 0x3f00 nSlot s0;
        if x1 \<noteq> C_OK then Some ((C_OK, serial), snd (EndTransactionML nSlot s1))
        else do {
          (x2, s2) \<leftarrow> SelectML 0x2f02 nSlot s1;
          if x2 \<noteq> C_OK then Some ((C_OK, serial), snd (EndTransactionML nSlot s2))
          else do {
            ((x3, ef_gdo, l), s3) \<leftarrow> ReadBinaryML 0 (Some (local_array s2 26)) (Some 26) nSlot s2;
            if x3 \<noteq> C_OK then Some ((C_OK, serial), snd (EndTransactionML nSlot s3))
            else do {
              gdo \<leftarrow> ef_gdo;
              Some ((C_OK, memcpy serial (drop 18 gdo) 8), snd (EndTransactionML nSlot s3))
            }
          }
        }
      })"

text \<open>
  \<open>VerifyPINML\<close>: \<open>pin\<close> holds the characters of the C string before its terminating
  zero, so \<open>strlen(pin)\<close> is \<open>length pin\<close> and \<open>(BYTE)strlen(pin)\<close> is \<open>of_nat (length pin)\<close>.
\<close>

definition VerifyPINML :: "int \<Rightarrow> byte list \<Rightarrow> nat \<Rightarrow> hal \<Rightarrow> (int \<times> hal) option" where
  "VerifyPINML nPIN pin nSlot s =
     (if \<not> initialized s then Some (C_NOT_INITIALIZED, s)
      else if nPIN \<noteq> 1 then Some (C_GENERIC_ERROR, s)
      else do {
        let s0 = snd (BeginTransactionML nSlot s);
        (r1, s1) \<leftarrow> SendAPDUML nSlot (APDU_VERIFYPIN OR 0x00000081) (of_nat (length pin)) None
                        pin None 0 s0;
        if rv_of r1 \<noteq> C_OK then Some (rv_of r1, snd (EndTransactionML nSlot s1))
        else do {
          (r2, s2) \<leftarrow>
             (if SW_of r1 = 0x6700
              then SendAPDUML nSlot (APDU_VERIFYPIN OR 0x00000081) 8 None
                     (memcpy (replicate 8 0) pin (min (length pin) 8)) None (SW_of r1) s1
              else Some (r1, s1));
          if rv_of r2 \<noteq> C_OK then Some (rv_of r2, snd (EndTransactionML nSlot s2))
          else if SW_of r2 = SW_AUTH_FAILED then do {
            (r3, s3) \<leftarrow> SendAPDUML nSlot (APDU_VERIFYPIN OR 0x00000081) 0 None [] None
                            (SW_of r2) s2;
            Some (if rv_of r3 \<noteq> C_OK then rv_of r3 else SW_of r3,
                  snd (EndTransactionML nSlot s3))
          }
          else Some (if SW_of r2 \<noteq> SW_OK then SW_of r2 else C_OK,
                     snd (EndTransactionML nSlot s2))
        }
      })"

text \<open>
  \<open>ReadRecordML\<close>: \<open>(BYTE*)Len\<close> is the low byte of \<open>*Len\<close>, which is at most 255 here,
  so the byte written back is the new \<open>*Len\<close>.
\<close>

definition ReadRecordML ::
  "nat \<Rightarrow> byte list option \<Rightarrow> nat option \<Rightarrow> nat \<Rightarrow> hal
     \<Rightarrow> ((int \<times> byte list option \<times> nat option) \<times> hal) option" where
  "ReadRecordML nRec Buffer Len nSlot s =
     (if \<not> initialized s then Some ((C_NOT_INITIALIZED, Buffer, Len), s)
      else if Buffer = None \<and> Len = None then Some ((C_GENERIC_ERROR, Buffer, Len), s)
      else case Len of
        None \<Rightarrow> Some ((C_WRONG_LENGTH, Buffer, Len), s)
      | Some len \<Rightarrow>
          if 255 < len then Some ((C_WRONG_LENGTH, Buffer, Len), s)
          else if 255 < nRec then Some ((C_RECORD_NOT_FOUND, Buffer, Len), s)
          else do {
            let s0 = snd (BeginTransactionML nSlot s);
            (r, s1) \<leftarrow> SendAPDUML nSlot
                          (APDU_READRECORD OR 0x00000004 OR ucast (push_bit 8 (of_nat nRec :: 16 word)))
                          0 (Some (of_nat len)) [] Buffer 0 s0;
            len1 \<leftarrow> Le_of r;
            Some ((if rv_of r \<noteq> C_OK then rv_of r
                   else if SW_of r \<noteq> SW_OK then SW_of r else C_OK,
                   out_of r, Some (unat len1)),
                  snd (EndTransactionML nSlot s1))
          })"

text \<open>
  The \<open>while\<close> loop of \<open>GetKeyIDML\<close>: record \<open>n\<close> is read into the one-byte variable
  \<open>status\<close> until a read fails or a record holds 1. \<open>ReadRecordML\<close> refuses \<open>n > 255\<close>,
  which ends the loop at the latest.
\<close>

function GetKeyID_records :: "nat \<Rightarrow> byte \<Rightarrow> nat \<Rightarrow> nat \<Rightarrow> hal \<Rightarrow> (byte \<times> hal) option" where
  "GetKeyID_records n status len nSlot s =
     (if 255 < n then Some (0, s)
      else do {
        ((x, buf, len1), s1) \<leftarrow> ReadRecordML n (Some [status]) (Some len) nSlot s;
        b \<leftarrow> buf;
        l \<leftarrow> len1;
        if x \<noteq> C_OK then Some (0, s1)
        else if hd b = 1 then Some (of_nat (n + 128), s1)
        else GetKeyID_records (n + 1) (hd b) (if 1 < l then 1 else l) nSlot s1
      })"
  by pat_completeness auto
termination
  by (relation "measure (\<lambda>(n, status, len, nSlot, s). 256 - n)") auto

definition GetKeyIDML :: "nat \<Rightarrow> hal \<Rightarrow> (byte \<times> hal) option" where
  "GetKeyIDML nSlot s =
     do {
       let s0 = snd (BeginTransactionML nSlot s);
       (x1, s1) \<leftarrow> SelectML 0x0000 nSlot s0;
       if x1 \<noteq> C_OK then Some (0, snd (EndTransactionML nSlot s1))
       else do {
         (x2, s2) \<leftarrow> SelectML 0x1111 nSlot s1;
         if x2 \<noteq> C_OK then Some (0, snd (EndTransactionML nSlot s2))
         else do {
           (x3, s3) \<leftarrow> SelectML 0x5f02 nSlot s2;
           if x3 \<noteq> C_OK then Some (0, snd (EndTransactionML nSlot s3))
           else do {
             (brv, s4) \<leftarrow> GetKeyID_records 1 (junk s3 0) 1 nSlot s3;
             Some (brv, snd (EndTransactionML nSlot s4))
           }
         }
       }
     }"

text \<open>
  \<open>GetCert\<close> returns \<open>(rv, cert, *dim)\<close>; \<open>cert = None\<close> is the null pointer.
\<close>

definition GetCert ::
  "16 word \<Rightarrow> byte list option \<Rightarrow> nat \<Rightarrow> nat \<Rightarrow> hal \<Rightarrow> ((int \<times> byte list option \<times> nat) \<times> hal) option" where
  "GetCert fid cert dim nSlot s =
     do {
       (x, s1) \<leftarrow> SelectML fid nSlot s;
       if x \<noteq> C_OK then Some ((C_GENERIC_ERROR, cert, dim), s1)
       else do {
         ((x2, dimBuff, q), s2) \<leftarrow> ReadBinaryML 0 (Some (local_array s1 2)) (Some 2) nSlot s1;
         db \<leftarrow> dimBuff;
         q1 \<leftarrow> q;
         if x2 \<noteq> C_OK \<or> q1 < 2 then Some ((C_GENERIC_ERROR, cert, dim), s2)
         else (let dd = nat (push_bit 8 (uint (db ! 1)) OR uint (db ! 0)) in
           if dim < dd then Some ((C_WRONG_LEN, cert, dd), s2)
           else case cert of
             None \<Rightarrow> Some ((C_OK, cert, dd), s2)
           | Some c \<Rightarrow> do {
               ((x3, c1, dim1), s3) \<leftarrow> ReadBinaryML 2 cert (Some dd) nSlot s2;
               d1 \<leftarrow> dim1;
               Some ((if x3 \<noteq> C_OK then C_GENERIC_ERROR else C_OK, c1, d1), s3)
             })
       }
     }"

definition GetCertificateML ::
  "byte list option \<Rightarrow> nat option \<Rightarrow> nat \<Rightarrow> hal \<Rightarrow> ((int \<times> byte list option \<times> nat option) \<times> hal) option" where
  "GetCertificateML cert dim nSlot s =
     (case dim of
        None \<Rightarrow> Some ((C_GENERIC_ERROR, cert, dim), s)
      | Some d \<Rightarrow> do {
          let s0 = snd (BeginTransactionML nSlot s);
          (k0, s1) \<leftarrow> GetKeyIDML nSlot s0;
          let k = k0 - 128;
          if k = 0 then Some ((C_GENERIC_ERROR, cert, dim), snd (EndTransactionML nSlot s1))
          else do {
            ((x, c1, d1), s2) \<leftarrow>
               GetCert (push_bit 8 (0x1a + ucast k - 1) OR 2) cert d nSlot s1;
            Some ((x, c1, Some d1), snd (EndTransactionML nSlot s2))
          }
        })"

text \<open>
  \<open>Padding\<close> writes \<open>00 01 FF .. FF 00\<close> and the \<open>Len\<close> bytes of \<open>toPad\<close> over the start of
  \<open>Padded\<close>; the loop runs \<open>128 - Len - 3\<close> times (not at all when that is negative).
\<close>

definition Padding :: "byte list \<Rightarrow> nat \<Rightarrow> byte list \<Rightarrow> byte list" where
  "Padding toPad Len Padded =
     (let block = [0, 1] @ replicate (128 - Len - 3) 0xff @ [0] @ take Len toPad
      in memcpy Padded block (length block))"

definition SignML :: "nat \<Rightarrow> byte list \<Rightarrow> byte list \<Rightarrow> nat \<Rightarrow> hal \<Rightarrow> ((int \<times> byte list) \<times> hal) option" where
  "SignML kx toSign Signed nSlot s =
     (if \<not> initialized s then Some ((C_NOT_INITIALIZED, Signed), s)
      else if 255 < kx then Some ((C_UNKNOWN_OBJECT, Signed), s)
      else do {
        let s0 = snd (BeginTransactionML nSlot s);
        (x1, s1) \<leftarrow> SelectML FID_MF nSlot s0;
        if x1 \<noteq> C_OK then Some ((C_FILE_NOT_FOUND, Signed), snd (EndTransactionML nSlot s1))
        else do {
          (x2, s2) \<leftarrow> SelectML FID_SIAE_APP_DOMAIN nSlot s1;
          if x2 \<noteq> C_OK then Some ((C_FILE_NOT_FOUND, Signed), snd (EndTransactionML nSlot s2))
          else do {
            (x3, s3) \<leftarrow> SelectML FID_P11_APP_DOMAIN nSlot s2;
            if x3 \<noteq> C_OK then Some ((C_FILE_NOT_FOUND, Signed), snd (EndTransactionML nSlot s3))
            else do {
              (r4, s4) \<leftarrow> SendAPDUML nSlot APDU_MSE_RESTORE 0 None [] None 0 s3;
              (r5, s5) \<leftarrow> SendAPDUML nSlot APDU_MSE 3 None [0x83, 0x01, of_nat kx] None
                              (SW_of r4) s4;
              if rv_of r5 \<noteq> C_OK then Some ((rv_of r5, Signed), snd (EndTransactionML nSlot s5))
              else if SW_of r5 \<noteq> SW_OK
              then Some ((SW_of r5, Signed), snd (EndTransactionML nSlot s5))
              else do {
                (r6, s6) \<leftarrow> SendAPDUML nSlot APDU_SIGN 129 (Some 128) (0 # take 128 toSign)
                                (Some Signed) (SW_of r5) s5;
                sg \<leftarrow> out_of r6;
                Some ((if rv_of r6 \<noteq> C_OK then rv_of r6
                       else if SW_of r6 \<noteq> SW_OK then SW_of r6 else C_OK, sg),
                      snd (EndTransactionML nSlot s6))
              }
            }
          }
        }
      })"

text \<open>
  The library state right after \<open>Initialize(0)\<close> has succeeded for the first time: the
  flag is set, slot 0 holds a handle, the depths were cleared, no driver call on the card
  has been made yet. The argument is what the card will answer.
\<close>

definition hal_init :: "driver_answer list \<Rightarrow> hal" where
  "hal_init answers =
     \<lparr>initialized = True, hCards = (\<lambda>n. if n = 0 then 1 else 0),
      hCardsTransactions = (\<lambda>_. 0), instances = 1, script = answers, calls = [],
      junk = (\<lambda>_. 0), context_ok = True, connect_handle = (\<lambda>_. 1)\<rparr>"

subsection \<open>Notions used to state the properties of \<open>SendAPDUML\<close>\<close>

text \<open>
  \<open>recovers s nSlot a\<close>: the answer \<open>a\<close> is a card reset after which \<open>SendAPDUML\<close> goes back
  to \<open>retryTransmit\<close>, that is, the last driver call of the recovery reports success: the
  lock when the slot's depth is positive, the reconnect otherwise. \<open>recovery_calls\<close> are
  the driver calls of one recovery, and \<open>transmitted\<close> the APDUs of a call log.
\<close>

fun is_reset :: "driver_answer \<Rightarrow> bool" where
  "is_reset (Reset_Card reconnect_ok relock_ok) = True"
| "is_reset a = False"

fun recovers :: "hal \<Rightarrow> nat \<Rightarrow> driver_answer \<Rightarrow> bool" where
  "recovers s nSlot (Reset_Card reconnect_ok relock_ok) =
     (if 0 < hCardsTransactions s nSlot then relock_ok else reconnect_ok)"
| "recovers s nSlot a = False"

definition recovery_calls :: "hal \<Rightarrow> nat \<Rightarrow> driver_call list" where
  "recovery_calls s nSlot =
     SCardReconnect nSlot #
     (if 0 < hCardsTransactions s nSlot then [SCardBeginTransaction nSlot] else [])"

fun transmitted :: "driver_call list \<Rightarrow> byte list list" where
  "transmitted [] = []"
| "transmitted (SCardTransmit nSlot apdu # cs) = apdu # transmitted cs"
| "transmitted (c # cs) = transmitted cs"

text \<open>
  What \<open>SendAPDUML\<close> returns for the answer that ends its loop, with \<open>*pLe\<close> as it is then.
\<close>

fun final_answer ::
  "driver_answer \<Rightarrow> byte option \<Rightarrow> byte list option \<Rightarrow> int \<Rightarrow> apdu_out option" where
  "final_answer (Transmitted data sw1 sw2) pLe outBuffer SW = deliver data sw1 sw2 pLe outBuffer"
| "final_answer (Reset_Card reconnect_ok relock_ok) pLe outBuffer SW =
     Some \<lparr>rv_of = C_NO_CARD, Le_of = map_option (\<lambda>_. 0) pLe, out_of = outBuffer, SW_of = SW\<rparr>"
| "final_answer (Transmit_Error e) pLe outBuffer SW =
     Some \<lparr>rv_of = (if e = SCARD_E_OTHER then C_GENERIC_ERROR else C_NO_CARD),
           Le_of = map_option (\<lambda>_. 0) pLe, out_of = outBuffer, SW_of = SW\<rparr>"

text \<open>
  \<open>answers_left s\<close> counts the answers of the script that are not card resets: each call
  of \<open>SendAPDUML\<close> uses up at most one of them, and returns when there is one.
\<close>

definition answers_left :: "hal \<Rightarrow> nat" where
  "answers_left s = length (filter (\<lambda>a. \<not> is_reset a) (script s))"

text \<open>
  The VERIFY command as \<open>SendAPDUML\<close> puts it on the wire for reference data \<open>data\<close>:
  header \<open>00 20 00 81\<close>, then \<open>Lc\<close> and the data unless there is none, then the byte 0
  that \<open>SendAPDUML\<close> appends for a null \<open>pLe\<close>. \<open>sent_by\<close> reads, off the result of a call,
  the APDUs transmitted up to its end.
\<close>

definition VERIFY :: "byte list \<Rightarrow> byte list" where
  "VERIFY data =
     [0x00, 0x20, 0x00, 0x81] @ (if data = [] then [] else of_nat (length data) # data) @ [0x00]"

definition sent_by :: "('a \<times> hal) option \<Rightarrow> byte list list option" where
  "sent_by res = map_option (transmitted \<circ> calls \<circ> snd) res"

section \<open>Quoted-printable encoder (smime.cpp)\<close>

text \<open>
  \<open>StringToQuotedPrintable\<close>: characters are HOL \<open>char\<close>s (bytes), the output \<open>std::string\<close>
  is a \<open>string\<close>. \<open>hex2\<close> is \<open>sprintf("%02X")\<close> of a byte. The loop is the \<open>for\<close> loop over
  \<open>i\<close>, with \<open>dwLineCounter\<close> and the output so far; the counter \<open>dwLen\<close> is never read
  and is left out.
\<close>

definition hex_digit :: "nat \<Rightarrow> char" where
  "hex_digit n = ''0123456789ABCDEF'' ! n"

definition hex2 :: "nat \<Rightarrow> string" where
  "hex2 c = [hex_digit (c div 16 mod 16), hex_digit (c mod 16)]"

definition qp_must_quote :: "nat \<Rightarrow> bool" where
  "qp_must_quote c \<longleftrightarrow>
     c < 32 \<or> c > 127 \<or> (c \<ge> 39 \<and> c \<le> 41) \<or> (c \<ge> 43 \<and> c \<le> 47) \<or> c = 58 \<or> c = 61 \<or> c = 63"

fun qp_loop :: "nat \<Rightarrow> nat \<Rightarrow> string \<Rightarrow> nat \<Rightarrow> string \<Rightarrow> string" where
  "qp_loop i dwInStringLen [] dwLineCounter OutString = OutString"
| "qp_loop i dwInStringLen (ch # rest) dwLineCounter OutString =
     (let c = (of_char ch :: nat);
          (out1, cnt1) =
            (if c = 32 \<and> i < dwInStringLen - 1 \<and> dwLineCounter \<ge> 70
             then (OutString @ ''=20'', dwLineCounter + 3)
             else if qp_must_quote c
             then (OutString @ ''='' @ hex2 c, dwLineCounter + 3)
             else (OutString @ [ch], dwLineCounter + 1))
      in if cnt1 \<ge> 72
         then qp_loop (i + 1) dwInStringLen rest 0 (out1 @ [CHR ''='', CHR 0x0D, CHR 0x0A])
         else qp_loop (i + 1) dwInStringLen rest cnt1 out1)"

definition StringToQuotedPrintable :: "string \<Rightarrow> string" where
  "StringToQuotedPrintable InString = qp_loop 0 (length InString) InString 0 []"

section \<open>DER encoder (asn1/)\<close>

text \<open>
  \<open>unsigned long\<close> is 32 bits wide (the masks \<open>0xFFFFFFE0\<close> and \<open>0xFFFFFF80\<close> of
  \<open>Asn1Type.cpp\<close> are written for that width), so tags and lengths are \<open>32 word\<close>.
\<close>

type_synonym dword = "32 word"

definition TC_UNIVERSAL :: byte where "TC_UNIVERSAL = 0x00"
definition TC_CONTEXT_SPECIFIC :: byte where "TC_CONTEXT_SPECIFIC = 0x80"
definition TT_PRIMITIVE :: byte where "TT_PRIMITIVE = 0x00"
definition TT_CONSTRUCTED :: byte where "TT_CONSTRUCTED = 0x20"

definition ASN1_INTEGER :: dword where "ASN1_INTEGER = 2"
definition ASN1_OCTET_STRING :: dword where "ASN1_OCTET_STRING = 4"
definition ASN1_NULL :: dword where "ASN1_NULL = 5"
definition ASN1_OBJECT :: dword where "ASN1_OBJECT = 6"
definition ASN1_SEQUENCE :: dword where "ASN1_SEQUENCE = 16"
definition ASN1_SET :: dword where "ASN1_SET = 17"
definition ASN1_UTCTIME :: dword where "ASN1_UTCTIME = 23"

subsection \<open>Asn1Common\<close>

text \<open>
  The \<open>Put...\<close> functions write at \<open>pbDest\<close> and return the advanced pointer; here they
  return the bytes written, in order. \<open>(unsigned char)(dwData>>k)&0x7F\<close> casts first and
  masks after.
\<close>

definition PutDW :: "dword \<Rightarrow> byte list" where
  "PutDW dwData =
     (let b1 = (dwData AND 0xFF000000 \<noteq> 0);
          b2 = (dwData AND 0xFF0000 \<noteq> 0 \<or> b1);
          b3 = (dwData AND 0xFF00 \<noteq> 0 \<or> b2)
      in (if b1 then [ucast (drop_bit 24 dwData) AND 0xFF] else []) @
         (if b2 then [ucast (drop_bit 16 dwData) AND 0xFF] else []) @
         (if b3 then [ucast (drop_bit 8 dwData) AND 0xFF] else []) @
         [ucast dwData AND 0xFF :: byte])"

definition DWLength :: "dword \<Rightarrow> dword" where
  "DWLength dwData =
     (if dwData AND 0xFF000000 \<noteq> 0 then 4
      else if dwData AND 0xFF0000 \<noteq> 0 then 3
      else if dwData AND 0xFF00 \<noteq> 0 then 2
      else 1)"

definition PutPackedDW :: "dword \<Rightarrow> byte list" where
  "PutPackedDW dwData =
     (let t1 = (ucast (drop_bit 28 dwData) AND 0x7F :: byte); b1 = (t1 \<noteq> 0);
          t2 = (ucast (drop_bit 21 dwData) AND 0x7F :: byte); b2 = (t2 \<noteq> 0 \<or> b1);
          t3 = (ucast (drop_bit 14 dwData) AND 0x7F :: byte); b3 = (t3 \<noteq> 0 \<or> b2);
          t4 = (ucast (drop_bit 7 dwData) AND 0x7F :: byte); b4 = (t4 \<noteq> 0 \<or> b3)
      in (if b1 then [0x80 OR t1] else []) @
         (if b2 then [0x80 OR t2] else []) @
         (if b3 then [0x80 OR t3] else []) @
         (if b4 then [0x80 OR t4] else []) @
         [ucast (dwData AND 0x7F)])"

definition PackedDWLength :: "dword \<Rightarrow> dword" where
  "PackedDWLength dwData =
     (if drop_bit 28 dwData AND 0x7F \<noteq> 0 then 5
      else if drop_bit 21 dwData AND 0x7F \<noteq> 0 then 4
      else if drop_bit 14 dwData AND 0x7F \<noteq> 0 then 3
      else if drop_bit 7 dwData AND 0x7F \<noteq> 0 then 2
      else 1)"

text \<open>
  In the conditions of \<open>PutSignedDW\<close> and \<open>SignedDWLength\<close>, \<open>&\<close> binds tighter than \<open>^\<close>:
  \<open>dwData&0xFF800000^0xFF800000\<close> is \<open>(dwData&0xFF800000)^0xFF800000\<close>. The third test of
  \<open>PutSignedDW\<close> has no \<open>b = TRUE\<close>, and needs none.
\<close>

definition signed_needs :: "dword \<Rightarrow> dword \<Rightarrow> dword \<Rightarrow> dword \<Rightarrow> bool" where
  "signed_needs dwData byte_mask sign_mask sign_bit \<longleftrightarrow>
     (dwData AND byte_mask \<noteq> 0 \<and> (dwData AND sign_mask) XOR sign_mask \<noteq> 0) \<or>
     (dwData AND sign_mask) XOR sign_bit = 0"

definition PutSignedDW :: "dword \<Rightarrow> byte list" where
  "PutSignedDW dwData =
     (let b1 = signed_needs dwData 0xFF000000 0xFF800000 0x800000;
          b2 = (signed_needs dwData 0xFF0000 0xFF8000 0x8000 \<or> b1);
          b3 = (signed_needs dwData 0xFF00 0xFF80 0x80 \<or> b2)
      in (if b1 then [ucast (drop_bit 24 dwData) AND 0xFF] else []) @
         (if b2 then [ucast (drop_bit 16 dwData) AND 0xFF] else []) @
         (if b3 then [ucast (drop_bit 8 dwData) AND 0xFF] else []) @
         [ucast dwData AND 0xFF :: byte])"

definition SignedDWLength :: "dword \<Rightarrow> dword" where
  "SignedDWLength dwData =
     (if signed_needs dwData 0xFF000000 0xFF800000 0x800000 then 4
      else if signed_needs dwData 0xFF0000 0xFF8000 0x8000 then 3
      else if signed_needs dwData 0xFF00 0xFF80 0x80 then 2
      else 1)"

subsection \<open>CAsn1Type and the node classes\<close>

text \<open>
  \<open>asn1_type\<close> holds the members of the base class \<open>CAsn1Type\<close>. A node is one of three
  shapes, after what its \<open>PutData\<close> does: \<open>Primitive\<close> copies \<open>m_dwEncodedDataLength\<close> bytes of
  its data (integer, octet string, null, object identifier, UTCTime, raw data);
  \<open>Constructed\<close> emits its children in order (sequence, set); \<open>Tagged\<close> emits the node it
  wraps. The C++ nodes hold pointers to their children; here a node holds the children as
  they were when they were added, which is how \<open>pkcs7.cpp\<close> builds its tree (every node
  is complete before it is added to its parent or wrapped).
\<close>

record asn1_type =
  m_bClass :: byte
  m_dwTag :: dword
  m_dwEncodedDataLength :: dword
  m_bConstructed :: bool
  m_bImplicit :: bool

datatype asn1 =
    Primitive asn1_type "byte list"
  | Constructed asn1_type "asn1 list"
  | Tagged asn1_type asn1

fun base :: "asn1 \<Rightarrow> asn1_type" where
  "base (Primitive t d) = t"
| "base (Constructed t cs) = t"
| "base (Tagged t n) = t"

definition GetEncodedLength :: "asn1 \<Rightarrow> dword" where
  "GetEncodedLength n =
     (let t = base n in
      if m_bImplicit t then m_dwEncodedDataLength t
      else (if m_dwTag t < 31 then 1 else PackedDWLength (m_dwTag t)) + 1 +
           (if m_dwEncodedDataLength t AND 0xFFFFFF80 \<noteq> 0
            then DWLength (m_dwEncodedDataLength t) else 0) +
           m_dwEncodedDataLength t)"

text \<open>
  \<open>PutHeader\<close>: the bytes it writes. \<open>pbFirst\<close> is the first of them, and receives the class
  and the constructed bit.
\<close>

definition PutHeader :: "asn1_type \<Rightarrow> byte list" where
  "PutHeader t =
     (let tagbytes = (if m_dwTag t AND 0xFFFFFFE0 \<noteq> 0 then [0x1F] else []) @
                     PutPackedDW (m_dwTag t);
          first = hd tagbytes OR m_bClass t OR
                  (if m_bConstructed t then TT_CONSTRUCTED else TT_PRIMITIVE)
      in first # tl tagbytes @
         (if m_dwEncodedDataLength t AND 0xFFFFFF80 \<noteq> 0
          then [0x80 + ucast (DWLength (m_dwEncodedDataLength t))] else []) @
         PutDW (m_dwEncodedDataLength t))"

text \<open>
  The destination buffer is a list of cells; a cell is \<open>None\<close> until a byte is written to
  it. \<open>poke p bytes buf\<close> stores \<open>bytes\<close> from cell \<open>p\<close> on. \<open>GetEncoded n pbDest buf\<close> is
  \<open>n.GetEncoded(pbDest)\<close>: the header unless the node is implicit, then \<open>PutData\<close>; the
  sequence loop advances \<open>pbDest\<close> by \<open>GetEncodedLength()\<close> of the child it has emitted.
\<close>

type_synonym cells = "byte option list"

definition poke :: "nat \<Rightarrow> byte list \<Rightarrow> cells \<Rightarrow> cells" where
  "poke p bytes buf = take p buf @ map Some bytes @ drop (p + length bytes) buf"

fun GetEncoded :: "asn1 \<Rightarrow> nat \<Rightarrow> cells \<Rightarrow> bool \<times> cells"
  and PutData_children :: "asn1 list \<Rightarrow> nat \<Rightarrow> cells \<Rightarrow> bool \<times> cells" where
  "GetEncoded (Primitive t d) pbDest buf =
     (let hdr = (if m_bImplicit t then [] else PutHeader t)
      in (True, poke (pbDest + length hdr) (take (unat (m_dwEncodedDataLength t)) d)
                  (poke pbDest hdr buf)))"
| "GetEncoded (Constructed t cs) pbDest buf =
     (let hdr = (if m_bImplicit t then [] else PutHeader t)
      in PutData_children cs (pbDest + length hdr) (poke pbDest hdr buf))"
| "GetEncoded (Tagged t n) pbDest buf =
     (let hdr = (if m_bImplicit t then [] else PutHeader t)
      in GetEncoded n (pbDest + length hdr) (poke pbDest hdr buf))"
| "PutData_children [] pbDest buf = (True, buf)"
| "PutData_children (c # cs) pbDest buf =
     (case GetEncoded c pbDest buf of
        (True, buf1) \<Rightarrow> PutData_children cs (pbDest + unat (GetEncodedLength c)) buf1
      | (False, buf1) \<Rightarrow> (False, buf1))"

definition written :: "cells \<Rightarrow> nat" where
  "written buf = length (filter (\<lambda>c. c \<noteq> None) buf)"

subsection \<open>Constructors\<close>

definition universal :: "dword \<Rightarrow> dword \<Rightarrow> bool \<Rightarrow> asn1_type" where
  "universal tag len constructed =
     \<lparr>m_bClass = TC_UNIVERSAL, m_dwTag = tag, m_dwEncodedDataLength = len,
      m_bConstructed = constructed, m_bImplicit = False\<rparr>"

definition CAsn1NULL :: asn1 where
  "CAsn1NULL = Primitive (universal ASN1_NULL 0 False) []"

definition CAsn1OctetString :: "byte list \<Rightarrow> asn1" where
  "CAsn1OctetString pbData =
     Primitive (universal ASN1_OCTET_STRING (of_nat (length pbData)) False) pbData"

definition CAsn1Integer :: "dword \<Rightarrow> asn1" where
  "CAsn1Integer iData =
     Primitive (universal ASN1_INTEGER (SignedDWLength iData) False) (PutSignedDW iData)"

definition CAsn1Integer_raw :: "byte list \<Rightarrow> asn1" where
  "CAsn1Integer_raw pbData =
     Primitive (universal ASN1_INTEGER (of_nat (length pbData)) False) pbData"

text \<open>
  \<open>CAsn1RawData\<close> never sets \<open>m_bClass\<close> and \<open>m_dwTag\<close>; an implicit node does not emit them.
  They are 0 here.
\<close>

definition CAsn1RawData :: "byte list \<Rightarrow> bool \<Rightarrow> asn1" where
  "CAsn1RawData pbData bConstructed =
     Primitive \<lparr>m_bClass = 0, m_dwTag = 0, m_dwEncodedDataLength = of_nat (length pbData),
                m_bConstructed = bConstructed, m_bImplicit = True\<rparr> pbData"

definition CAsn1Sequence :: asn1 where
  "CAsn1Sequence = Constructed (universal ASN1_SEQUENCE 0 True) []"

text \<open>
  \<open>Add\<close> (of a sequence or a set) appends the child and sums the children's encoded
  lengths anew.
\<close>

fun sum_lengths :: "asn1 list \<Rightarrow> dword" where
  "sum_lengths [] = 0"
| "sum_lengths (c # cs) = GetEncodedLength c + sum_lengths cs"

fun Add :: "asn1 \<Rightarrow> asn1 \<Rightarrow> asn1" where
  "Add (Constructed t cs) pData =
     Constructed (t\<lparr>m_dwEncodedDataLength := sum_lengths (cs @ [pData])\<rparr>) (cs @ [pData])"
| "Add n pData = n"

fun SetImplicit :: "asn1 \<Rightarrow> asn1" where
  "SetImplicit (Primitive t d) = Primitive (t\<lparr>m_bImplicit := True\<rparr>) d"
| "SetImplicit (Constructed t cs) = Constructed (t\<lparr>m_bImplicit := True\<rparr>) cs"
| "SetImplicit (Tagged t n) = Tagged (t\<lparr>m_bImplicit := True\<rparr>) n"

definition CAsn1Tagged :: "asn1 \<Rightarrow> dword \<Rightarrow> asn1" where
  "CAsn1Tagged pData dwTag =
     Tagged \<lparr>m_bClass = TC_CONTEXT_SPECIFIC, m_dwTag = dwTag,
             m_dwEncodedDataLength = GetEncodedLength pData,
             m_bConstructed = (if m_bImplicit (base pData) then m_bConstructed (base pData) else True),
             m_bImplicit = False\<rparr> pData"

text \<open>
  Modelled from the spec: \<open>Asn1Set.cpp\<close> is not among the sources (only \<open>Asn1Set.h\<close>, which
  declares the same members as \<open>Asn1Sequence.h\<close>). The spec gives sets and sequences one
  behaviour: ordered children, the encoded length the sum of the children's, emission in
  order, no sorting. So a set is a sequence with the tag \<open>ASN1_SET\<close>.
\<close>

definition CAsn1Set :: asn1 where
  "CAsn1Set = Constructed (universal ASN1_SET 0 True) []"

text \<open>
  \<open>CAsn1UTCTime\<close>: the table \<open>d\<close> of the constructor, as it is in the source: its entry
  55 is \<open>"15"\<close>. The arguments are \<open>unsigned short\<close>, here \<open>nat\<close>.
\<close>

definition utc_d :: "string list" where
  "utc_d =
     [''00'',''01'',''02'',''03'',''04'',''05'',''06'',''07'',''08'',''09'',
      ''10'',''11'',''12'',''13'',''14'',''15'',''16'',''17'',''18'',''19'',
      ''20'',''21'',''22'',''23'',''24'',''25'',''26'',''27'',''28'',''29'',
      ''30'',''31'',''32'',''33'',''34'',''35'',''36'',''37'',''38'',''39'',
      ''40'',''41'',''42'',''43'',''44'',''45'',''46'',''47'',''48'',''49'',
      ''50'',''51'',''52'',''53'',''54'',''15'',''56'',''57'',''58'',''59'',
      ''60'',''61'',''62'',''63'',''64'',''65'',''66'',''67'',''68'',''69'',
      ''70'',''71'',''72'',''73'',''74'',''75'',''76'',''77'',''78'',''79'',
      ''80'',''81'',''82'',''83'',''84'',''85'',''86'',''87'',''88'',''89'',
      ''90'',''91'',''92'',''93'',''94'',''95'',''96'',''97'',''98'',''99'']"

definition m_chData :: "nat \<Rightarrow> nat \<Rightarrow> nat \<Rightarrow> nat \<Rightarrow> nat \<Rightarrow> nat \<Rightarrow> string" where
  "m_chData wYear wMonth wDay wHour wMinute wSecond =
     utc_d ! (wYear mod 100) @
     (if wMonth mod 12 = 0 then utc_d ! 12 else utc_d ! (wMonth mod 12)) @
     (if wDay mod 31 = 0 then utc_d ! 31 else utc_d ! (wDay mod 31)) @
     utc_d ! (wHour mod 24) @
     utc_d ! (wMinute mod 60) @
     utc_d ! (wSecond mod 60) @
     ''Z''"

definition CAsn1UTCTime :: "nat \<Rightarrow> nat \<Rightarrow> nat \<Rightarrow> nat \<Rightarrow> nat \<Rightarrow> nat \<Rightarrow> asn1" where
  "CAsn1UTCTime wYear wMonth wDay wHour wMinute wSecond =
     Primitive (universal ASN1_UTCTIME 13 False)
       (map of_char (m_chData wYear wMonth wDay wHour wMinute wSecond))"

text \<open>
  Modelled from the spec: the library has no UTCTime reader. The spec's form is the 13
  characters \<open>YYMMDDhhmmssZ\<close>, read back with the century convention \<open>YY < 50\<close> gives
  \<open>20YY\<close>, otherwise \<open>19YY\<close>. \<open>parse_utctime\<close> reads exactly that form.
\<close>

definition digit_val :: "char \<Rightarrow> nat option" where
  "digit_val c =
     (if 48 \<le> (of_char c :: nat) \<and> (of_char c :: nat) \<le> 57 then Some (of_char c - 48) else None)"

definition two_digits :: "char \<Rightarrow> char \<Rightarrow> nat option" where
  "two_digits a b =
     (case (digit_val a, digit_val b) of (Some x, Some y) \<Rightarrow> Some (10 * x + y) | _ \<Rightarrow> None)"

fun parse_utctime :: "string \<Rightarrow> (nat \<times> nat \<times> nat \<times> nat \<times> nat \<times> nat) option" where
  "parse_utctime [y1, y2, m1, m2, d1, d2, h1, h2, n1, n2, s1, s2, z] =
     (if z \<noteq> CHR ''Z'' then None
      else case (two_digits y1 y2, two_digits m1 m2, two_digits d1 d2,
                 two_digits h1 h2, two_digits n1 n2, two_digits s1 s2) of
        (Some yy, Some mo, Some dd, Some hh, Some mi, Some ss) \<Rightarrow>
          Some ((if yy < 50 then 2000 + yy else 1900 + yy), mo, dd, hh, mi, ss)
      | _ \<Rightarrow> None)"
| "parse_utctime cs = None"

text \<open>
  \<open>CAsn1Object\<close>: the dotted string is cut at the dots and each piece read by \<open>atoi\<close>
  (leading decimal digits; no sign or blank occurs in the OIDs of the library). A dot
  followed by the end of the string leaves the node empty. Arcs are \<open>unsigned long\<close>.
\<close>

fun split_dots :: "string \<Rightarrow> string \<Rightarrow> string list" where
  "split_dots cur [] = [cur]"
| "split_dots cur (c # cs) =
     (if c = CHR ''.'' then cur # split_dots [] cs else split_dots (cur @ [c]) cs)"

fun atoi_from :: "nat \<Rightarrow> string \<Rightarrow> nat" where
  "atoi_from acc [] = acc"
| "atoi_from acc (c # cs) =
     (case digit_val c of None \<Rightarrow> acc | Some v \<Rightarrow> atoi_from (10 * acc + v) cs)"

definition atoi :: "string \<Rightarrow> dword" where
  "atoi p = of_nat (atoi_from 0 p)"

definition fuse_arcs :: "dword list \<Rightarrow> dword list" where
  "fuse_arcs oid =
     (case oid of a # b # rest \<Rightarrow> (a * 40 + b) # rest | _ \<Rightarrow> oid)"

fun sum_packed :: "dword list \<Rightarrow> dword" where
  "sum_packed [] = 0"
| "sum_packed (a # as) = PackedDWLength a + sum_packed as"

definition CAsn1Object :: "string \<Rightarrow> asn1" where
  "CAsn1Object szOid =
     (if szOid \<noteq> [] \<and> last szOid = CHR ''.''
      then Primitive (universal ASN1_OBJECT 0 False) []
      else (let arcs = fuse_arcs (map atoi (split_dots [] szOid))
            in Primitive (universal ASN1_OBJECT (sum_packed arcs) False)
                 (concat (map PutPackedDW arcs))))"

section \<open>DER micro-parser (pkcs7.cpp)\<close>

text \<open>
  \<open>der_parse\<close> walks the slice \<open>der_begin .. der_begin + der_len\<close>. Pointers into the slice are
  offsets from \<open>der_begin\<close>; an item records its tag byte, where its value and its whole
  encoding start, and their lengths (the members \<open>tag\<close>, \<open>value\<close>, \<open>len\<close>, \<open>fvalue\<close>, \<open>flen\<close> of
  \<open>_DER_ITEM\<close>). \<open>TEST_UNEXP_END(X)\<close> is
  \<open>if (der + X > der_end) return v\<close>.

  \<open>read_length b der ln\<close> is the \<open>switch (b)\<close> over the number of length bytes, whose cases
  4, 3, 2, 1 fall through: \<open>b\<close> bytes are read into the \<open>unsigned int ln\<close>, each after a
  \<open>TEST_UNEXP_END(1)\<close>; \<open>None\<close> is the \<open>return v\<close> of that test. For any other \<open>b\<close> no case is taken and \<open>ln\<close> stays 0: the
  statement \<open>if (b > 4) v;\<close> before the switch does nothing.
\<close>

record der_item =
  item_tag :: nat
  item_value :: nat
  item_len :: nat
  item_fvalue :: nat
  item_flen :: nat

fun read_bytes :: "byte list \<Rightarrow> nat \<Rightarrow> nat \<Rightarrow> 32 word \<Rightarrow> (nat \<times> nat) option" where
  "read_bytes bytes 0 der ln = Some (unat ln, der)"
| "read_bytes bytes (Suc k) der ln =
     (if der + 1 > length bytes then None
      else read_bytes bytes k (der + 1) (push_bit 8 ln OR ucast (bytes ! der)))"

definition read_length :: "byte list \<Rightarrow> nat \<Rightarrow> nat \<Rightarrow> (nat \<times> nat) option" where
  "read_length bytes b der =
     (if 1 \<le> b \<and> b \<le> 4 then read_bytes bytes b der 0 else Some (0, der))"

lemma read_bytes_advances: "read_bytes bytes k der ln = Some (l, d) \<Longrightarrow> der \<le> d"
proof (induction k arbitrary: der ln)
  case 0
  then show ?case by simp
next
  case (Suc k)
  from Suc.prems have "read_bytes bytes k (der + 1) (push_bit 8 ln OR ucast (bytes ! der)) = Some (l, d)"
    by (simp split: if_splits)
  from Suc.IH [OF this] show ?case by simp
qed

lemma read_length_advances: "read_length bytes b der = Some (l, d) \<Longrightarrow> der \<le> d"
  by (auto simp: read_length_def split: if_splits dest: read_bytes_advances)

function der_parse_loop :: "byte list \<Rightarrow> nat \<Rightarrow> der_item list \<Rightarrow> der_item list" where
  "der_parse_loop bytes der v =
     (if der < length bytes then
        (let t = unat (bytes ! der);
             tg = t mod 32
         in if tg = 31 then v
            else if der + 1 + 1 > length bytes then v
            else (let b = bytes ! (der + 1) in
              if b = 0x80 then v
              else case (if b AND 0x80 \<noteq> 0 then read_length bytes (unat (b AND 0x7f)) (der + 2)
                         else Some (unat b, der + 2)) of
                None \<Rightarrow> v
              | Some (ln, der2) \<Rightarrow>
                  if der2 + ln > length bytes then v
                  else der_parse_loop bytes (der2 + ln)
                         (v @ [\<lparr>item_tag = t, item_value = der2, item_len = ln,
                                 item_fvalue = der,
                                 item_flen = 2 + (der2 - (der + 2)) + ln\<rparr>])))
      else v)"
  by pat_completeness auto


termination
proof (relation "measure (\<lambda>(bytes, der, v). length bytes - der)", goal_cases)
  case 1
  show ?case by simp
next
  case (2 bytes der v t tg b x2 ln der2)
  then have "der + 2 \<le> der2"
    by (auto split: if_splits dest: read_length_advances)
  with 2 show ?case by simp
qed

definition der_parse :: "byte list \<Rightarrow> der_item list" where
  "der_parse bytes = der_parse_loop bytes 0 []"

section \<open>Base64 codec (base64.h, base64.cpp)\<close>

text \<open>
  The members of \<open>CBase64\<close> that a call reads are arguments here: the source bytes
  (\<open>pbSource\<close>, \<open>cbSource\<close>), the line length \<open>uLineLength\<close> (64 after the constructor) and,
  for \<open>ProcessToBuffer\<close> on a null \<open>*ppbBuffer\<close>, the bytes that \<open>new unsigned char[]\<close> hands
  out, which C++ leaves indeterminate (\<open>fresh\<close>). A result \<open>None\<close> means that the codec
  gives no output: a \<open>Load...\<close> call returned \<open>FALSE\<close>, the process stopped on an integer
  division by zero, or the destination could not be allocated. Lengths are \<open>nat\<close>; the
  model does not represent lengths beyond \<open>unsigned long\<close>.
\<close>

definition charTbl :: "byte list" where
  "charTbl = map of_char ''ABCDEFGHIJKLMNOPQRSTUVWXYZabcdefghijklmnopqrstuvwxyz0123456789+/''"

definition byteTbl_entries :: "byte list" where
  "byteTbl_entries =
   [0xFF,0xFF,0xFF,0xFF,0xFF,0xFF,0xFF,0xFF,0xFF,0xFF,0xFF,0xFF,0xFF,0xFF,0xFF,0xFF,
    0xFF,0xFF,0xFF,0xFF,0xFF,0xFF,0xFF,0xFF,0xFF,0xFF,0xFF,0xFF,0xFF,0xFF,0xFF,0xFF,
    0xFF,0xFF,0xFF,0xFF,0xFF,0xFF,0xFF,0xFF,0xFF,0xFF,0xFF,0x3E,0xFF,0xFF,0xFF,0x3F,
    0x34,0x35,0x36,0x37,0x38,0x39,0x3A,0x3B,0x3C,0x3D,0xFF,0xFF,0xFF,0x40,0xFF,0xFF,
    0xFF,0x00,0x01,0x02,0x03,0x04,0x05,0x06,0x07,0x08,0x09,0x0A,0x0B,0x0C,0x0D,0x0E,
    0x0F,0x10,0x11,0x12,0x13,0x14,0x15,0x16,0x17,0x18,0x19,0xFF,0xFF,0xFF,0xFF,0xFF,
    0xFF,0x1A,0x1B,0x1C,0x1D,0x1E,0x1F,0x20,0x21,0x22,0x23,0x24,0x25,0x26,0x27,0x28,
    0x29,0x2A,0x2B,0x2C,0x2D,0x2E,0x2F,0x30,0x31,0x32,0x33,0xFF,0xFF,0xFF,0xFF,0xFF,
    0xFF,0xFF,0xFF,0xFF,0xFF,0xFF,0xFF,0xFF,0xFF,0xFF,0xFF,0xFF,0xFF,0xFF,0xFF,0xFF,
    0xFF,0xFF,0xFF,0xFF,0xFF,0xFF,0xFF,0xFF,0xFF,0xFF,0xFF,0xFF,0xFF,0xFF,0xFF,0xFF,
    0xFF,0xFF,0xFF,0xFF,0xFF,0xFF,0xFF,0xFF,0xFF,0xFF,0xFF,0xFF,0xFF,0xFF,0xFF,0xFF,
    0xFF,0xFF,0xFF,0xFF,0xFF,0xFF,0xFF,0xFF,0xFF,0xFF,0xFF,0xFF,0xFF,0xFF,0xFF,0xFF,
    0xFF,0xFF,0xFF,0xFF,0xFF,0xFF,0xFF,0xFF,0xFF,0xFF,0xFF,0xFF,0xFF,0xFF,0xFF,0xFF,
    0xFF,0xFF,0xFF,0xFF,0xFF,0xFF,0xFF,0xFF,0xFF,0xFF,0xFF,0xFF,0xFF,0xFF,0xFF,0xFF,
    0xFF,0xFF,0xFF,0xFF,0xFF,0xFF,0xFF,0xFF,0xFF,0xFF,0xFF,0xFF,0xFF,0xFF,0xFF,0xFF,
    0xFF,0xFF,0xFF,0xFF,0xFF,0xFF,0xFF,0xFF,0xFF,0xFF,0xFF,0xFF,0xFF,0xFF,0xFF,0xFF]"

definition byteTbl :: "byte \<Rightarrow> byte" where
  "byteTbl c = byteTbl_entries ! unat c"

definition SetLineLength :: "nat \<Rightarrow> nat" where
  "SetLineLength uLineLength = (if uLineLength > 76 then 76 else uLineLength - uLineLength mod 4)"

definition B64EncodedLength :: "nat \<Rightarrow> nat \<Rightarrow> nat option" where
  "B64EncodedLength cbSource uLineLength =
     (let dwRet = (cbSource div 3) * 4 + (if cbSource mod 3 \<noteq> 0 then 4 else 0)
      in if uLineLength = 0 then None
         else Some (dwRet + ((dwRet div uLineLength) + (if dwRet mod uLineLength = 0 then 1 else 0)) * 2))"

definition tbl :: "byte \<Rightarrow> byte" where
  "tbl i = charTbl ! unat i"

text \<open>
  The loop of \<open>Encode\<close> over the whole groups of three bytes, \<open>i\<close> counting from 1, and the
  \<open>switch\<close> on the one or two bytes left over. The result is what \<open>Encode\<close> writes from
  \<open>pbDestination\<close> on.
\<close>

fun Encode_groups :: "nat \<Rightarrow> nat \<Rightarrow> byte list \<Rightarrow> byte list" where
  "Encode_groups i uCyclesPerLineFeed (s0 # s1 # s2 # rest) =
     [tbl (drop_bit 2 (s0 AND 0xFC)),
      tbl (drop_bit 4 (s1 AND 0xF0) OR push_bit 4 (s0 AND 0x3)),
      tbl (drop_bit 6 (s2 AND 0xC0) OR push_bit 2 (s1 AND 0xF)),
      tbl (s2 AND 0x3F)] @
     (if i mod uCyclesPerLineFeed = 0 then [0x0D, 0x0A] else []) @
     Encode_groups (i + 1) uCyclesPerLineFeed rest"
| "Encode_groups i uCyclesPerLineFeed [s0] =
     [tbl (drop_bit 2 (s0 AND 0xFC)), tbl (push_bit 4 (s0 AND 0x3)), 0x3D, 0x3D]"
| "Encode_groups i uCyclesPerLineFeed [s0, s1] =
     [tbl (drop_bit 2 (s0 AND 0xFC)),
      tbl (drop_bit 4 (s1 AND 0xF0) OR push_bit 4 (s0 AND 0x3)),
      tbl (push_bit 2 (s1 AND 0xF)), 0x3D]"
| "Encode_groups i uCyclesPerLineFeed [] = []"

definition Encode :: "byte list \<Rightarrow> nat \<Rightarrow> byte list option" where
  "Encode pbSource uLineLength =
     (let uCyclesPerLineFeed = uLineLength div 4
      in if 1 \<le> length pbSource div 3 \<and> uCyclesPerLineFeed = 0 then None
         else Some (Encode_groups 1 uCyclesPerLineFeed pbSource))"

text \<open>
  \<open>LoadBufferToEncode\<close> followed by \<open>ProcessToBuffer\<close> into a new buffer: \<open>cbDestination\<close>
  bytes are allocated and handed back, of which \<open>Encode\<close> writes the first ones.
\<close>

definition encode_buffer :: "nat \<Rightarrow> (nat \<Rightarrow> byte) \<Rightarrow> byte list \<Rightarrow> byte list option" where
  "encode_buffer uLineLength fresh pbBuffer =
     (if pbBuffer = [] then None
      else do {
        cbDestination \<leftarrow> B64EncodedLength (length pbBuffer) uLineLength;
        e \<leftarrow> Encode pbBuffer uLineLength;
        Some (memcpy (map fresh [0..<cbDestination]) e (length e))
      })"

text \<open>
  \<open>DecodedLength\<close> first lowers \<open>cbSource\<close> past the trailing bytes that are no base64
  characters (\<open>trim_invalid\<close>); \<open>None\<close> is its result \<open>(unsigned long)-1\<close>.
\<close>

definition is_invalid :: "byte \<Rightarrow> bool" where
  "is_invalid c \<longleftrightarrow> byteTbl c = 0xFF"

definition trim_invalid :: "byte list \<Rightarrow> byte list" where
  "trim_invalid s = rev (dropWhile is_invalid (rev s))"

definition DecodedLength :: "byte list \<Rightarrow> nat option" where
  "DecodedLength pbSource =
     (let src = trim_invalid pbSource;
          dwCleanLength = length (filter (\<lambda>c. \<not> is_invalid c) src)
      in if dwCleanLength mod 4 = 0 \<and> src \<noteq> []
         then (let uPaddingChars = length (takeWhile (\<lambda>c. c = 0x3D) (rev src))
               in if uPaddingChars > 2 then None
                  else Some (((dwCleanLength - 4) div 4) * 3 +
                             (if uPaddingChars = 0 then 3 else if uPaddingChars = 2 then 1 else 2)))
         else None)"

text \<open>
  The loop of \<open>Decode\<close>: \<open>buf\<close> holds the \<open>uBufferIndex\<close> codes of the group being
  collected, \<open>out\<close> the bytes written so far.
\<close>

fun Decode_loop :: "byte list \<Rightarrow> byte list \<Rightarrow> byte list \<Rightarrow> byte list" where
  "Decode_loop [] buf out = out"
| "Decode_loop (c # s) buf out =
     (let bCode = byteTbl c in
      if bCode \<noteq> 0xFF then
        (let b = buf @ [bCode] in
         if bCode = 64 \<and> length b = 3
         then out @ [push_bit 2 (b ! 0) OR drop_bit 4 (b ! 1)]
         else if bCode = 64 \<and> length b = 4
         then out @ [push_bit 2 (b ! 0) OR drop_bit 4 (b ! 1),
                     push_bit 4 (b ! 1) OR drop_bit 2 (b ! 2)]
         else if length b = 4
         then Decode_loop s []
                (out @ [push_bit 2 (b ! 0) OR drop_bit 4 (b ! 1),
                        push_bit 4 (b ! 1) OR drop_bit 2 (b ! 2),
                        push_bit 6 (b ! 2) OR b ! 3])
         else Decode_loop s b out)
      else Decode_loop s buf out)"

text \<open>
  \<open>LoadBufferToDecode\<close> followed by \<open>ProcessToBuffer\<close> into a new buffer. A destination of
  \<open>(unsigned long)-1\<close> bytes cannot be allocated.
\<close>

definition decode_buffer :: "(nat \<Rightarrow> byte) \<Rightarrow> byte list \<Rightarrow> byte list option" where
  "decode_buffer fresh pbBuffer =
     (if pbBuffer = [] then None
      else do {
        cbDestination \<leftarrow> DecodedLength pbBuffer;
        let d = Decode_loop (trim_invalid pbBuffer) [] [];
        Some (take cbDestination (memcpy (map fresh [0..<cbDestination]) d (length d)))
      })"

text \<open>
  A destination allocation whose bytes are all the letter \<open>A\<close> before the codec writes to
  it; any other contents are as possible.
\<close>

definition fresh_A :: "nat \<Rightarrow> byte" where
  "fresh_A i = 0x41"

section \<open>PKCS#7 SignedData (pkcs7.cpp)\<close>

text \<open>
  The hash primitive and the clock are outside the library: \<open>SHA1\<close> is an argument (\<open>None\<close>
  when the C function returns 0), and so is the UTC time that \<open>gmtime\<close> gives, as the six
  arguments of \<open>CAsn1UTCTime\<close>.
\<close>

type_synonym sha1_fun = "byte list \<Rightarrow> byte list option"
type_synonym utc = "nat \<times> nat \<times> nat \<times> nat \<times> nat \<times> nat"

definition DER_SEQUENCE :: nat where "DER_SEQUENCE = 0 + 32 + 16"
definition DER_INTEGER :: nat where "DER_INTEGER = 0 + 2"
definition DER_BIT_STRING :: nat where "DER_BIT_STRING = 0 + 3"
definition DER_CONTEXT :: nat where "DER_CONTEXT = 128 + 32"

definition slice :: "byte list \<Rightarrow> nat \<Rightarrow> nat \<Rightarrow> byte list" where
  "slice bytes off n = take n (drop off bytes)"

definition tags_are :: "der_item list \<Rightarrow> nat list \<Rightarrow> bool" where
  "tags_are v ts \<longleftrightarrow> length ts \<le> length v \<and> map item_tag (take (length ts) v) = ts"

text \<open>
  The part of \<open>SignDataML\<close> that finds the issuer and the serial number in the certificate:
  \<open>None\<close> is its \<open>return FALSE\<close>. The result is the issuer's whole encoding and the
  contents of the serial number.
\<close>

definition issuer_and_serial :: "byte list \<Rightarrow> (byte list \<times> byte list) option" where
  "issuer_and_serial cert =
     (let v1 = der_parse cert in
      if length v1 < 1 \<or> item_tag (v1 ! 0) \<noteq> DER_SEQUENCE then None
      else (let c1 = slice cert (item_value (v1 ! 0)) (item_len (v1 ! 0));
                v2 = der_parse c1
            in if length v2 < 3 \<or> item_tag (v2 ! 0) \<noteq> DER_SEQUENCE
                  \<or> item_tag (v2 ! 1) \<noteq> DER_SEQUENCE \<or> item_tag (v2 ! 2) \<noteq> DER_BIT_STRING
               then None
               else (let c2 = slice c1 (item_value (v2 ! 0)) (item_len (v2 ! 0));
                         v3 = der_parse c2
                     in if length v3 > 6 \<and>
                           tags_are v3 [DER_CONTEXT + 0, DER_INTEGER, DER_SEQUENCE, DER_SEQUENCE,
                                        DER_SEQUENCE, DER_SEQUENCE, DER_SEQUENCE]
                        then Some (slice c2 (item_fvalue (v3 ! 3)) (item_flen (v3 ! 3)),
                                   slice c2 (item_value (v3 ! 1)) (item_len (v3 ! 1)))
                        else if length v3 > 5 \<and>
                           tags_are v3 [DER_INTEGER, DER_SEQUENCE, DER_SEQUENCE, DER_SEQUENCE,
                                        DER_SEQUENCE, DER_SEQUENCE]
                        then Some (slice c2 (item_fvalue (v3 ! 2)) (item_flen (v3 ! 2)),
                                   slice c2 (item_value (v3 ! 0)) (item_len (v3 ! 0)))
                        else None)))"

definition sequence_of :: "asn1 list \<Rightarrow> asn1" where
  "sequence_of cs = foldl Add CAsn1Sequence cs"

definition set_of :: "asn1 list \<Rightarrow> asn1" where
  "set_of cs = foldl Add CAsn1Set cs"

text \<open>
  The nodes that \<open>SignDataML\<close> builds, by the names of its variables. \<open>sequence_of\<close> and
  \<open>set_of\<close> are the constructor followed by the \<open>Add\<close> calls in their order.
\<close>

definition DigestAlgorithmIdentifier :: asn1 where
  "DigestAlgorithmIdentifier = sequence_of [CAsn1Object ''1.3.14.3.2.26'', CAsn1NULL]"

definition Pkcs7DataOID :: asn1 where
  "Pkcs7DataOID = CAsn1Object ''1.2.840.113549.1.7.1''"

definition SignedAttributes :: "utc \<Rightarrow> byte list \<Rightarrow> asn1" where
  "SignedAttributes now digest =
     (case now of (y, mo, d, h, mi, sec) \<Rightarrow>
      set_of
       [sequence_of [CAsn1Object ''1.2.840.113549.1.9.3'', set_of [Pkcs7DataOID]],
        sequence_of [CAsn1Object ''1.2.840.113549.1.9.5'', set_of [CAsn1UTCTime y mo d h mi sec]],
        sequence_of [CAsn1Object ''1.2.840.113549.1.9.4'', set_of [CAsn1OctetString digest]],
        sequence_of [CAsn1Object ''1.2.840.113549.1.9.15'',
          set_of [sequence_of
            [sequence_of [CAsn1Object ''1.2.840.113549.3.7''],
             sequence_of [CAsn1Object ''1.3.14.3.2.7''],
             sequence_of [CAsn1Object ''1.2.840.113549.1.1.5'']]]]])"

definition ContentInfo ::
  "byte list \<Rightarrow> byte list \<Rightarrow> byte list \<Rightarrow> byte list \<Rightarrow> asn1 \<Rightarrow> byte list \<Rightarrow> asn1" where
  "ContentInfo pbToBeSigned pbCertContext issuer serial attrs RsaEncryption =
     (let SignerInfo1 = sequence_of
            [CAsn1Integer 1,
             sequence_of [CAsn1RawData issuer False, CAsn1Integer_raw serial],
             DigestAlgorithmIdentifier,
             CAsn1Tagged (SetImplicit attrs) 0,
             sequence_of [CAsn1Object ''1.2.840.113549.1.1.1'', CAsn1NULL],
             CAsn1OctetString (take 128 RsaEncryption)];
          SignedData = sequence_of
            [CAsn1Integer 1,
             set_of [DigestAlgorithmIdentifier],
             sequence_of [Pkcs7DataOID, CAsn1Tagged (CAsn1OctetString pbToBeSigned) 0],
             CAsn1Tagged (SetImplicit (set_of [CAsn1RawData pbCertContext False])) 0,
             set_of [SignerInfo1]]
      in sequence_of [CAsn1Object ''1.2.840.113549.1.7.2'', CAsn1Tagged SignedData 0])"

text \<open>
  \<open>settle s buf\<close> reads a buffer of cells as bytes: a cell never written holds what was in
  memory. \<open>sha1_prefix\<close> are the first 15 bytes of the local array \<open>Sha1Digest\<close>, grouped
  as the headers they are: the outer sequence, the algorithm sequence, the object identifier
  of the hash, the null parameter and the header of the 20-byte octet string.
\<close>

definition settle :: "hal \<Rightarrow> cells \<Rightarrow> byte list" where
  "settle s buf = map (\<lambda>(i, c). case c of None \<Rightarrow> junk s i | Some b \<Rightarrow> b) (enumerate 0 buf)"

definition sha1_prefix :: "byte list" where
  "sha1_prefix = [0x30, 0x21] @ [0x30, 0x09] @ [0x06, 0x05, 0x2b, 0x0e, 0x03, 0x02, 0x1a] @
                 [0x05, 0x00] @ [0x04, 0x14]"

text \<open>
  \<open>SignDataML\<close> returns \<open>(bRet, pbSignedBlob, *pcbSignedBlob)\<close>. \<open>pbSignedBlob = None\<close> is the
  null pointer, with which the function only measures. The order is the source's: first
  hash, certificate, attributes, then the on-card signature, then the emission.
\<close>

definition SignDataML ::
  "sha1_fun \<Rightarrow> utc \<Rightarrow> nat \<Rightarrow> nat \<Rightarrow> byte list \<Rightarrow> byte list \<Rightarrow> cells option \<Rightarrow> nat \<Rightarrow> hal
     \<Rightarrow> ((bool \<times> cells option \<times> nat) \<times> hal) option" where
  "SignDataML SHA1 now slot wKid pbCertContext pbToBeSigned pbSignedBlob cbSignedBlob s =
     (case (if pbSignedBlob \<noteq> None then SHA1 pbToBeSigned else Some (replicate 20 0)) of
        None \<Rightarrow> Some ((False, pbSignedBlob, cbSignedBlob), s)
      | Some digest1 \<Rightarrow>
         (case issuer_and_serial pbCertContext of
            None \<Rightarrow> Some ((False, pbSignedBlob, cbSignedBlob), s)
          | Some (issuer, serial) \<Rightarrow>
             (let attrs = SignedAttributes now (take 20 digest1) in
              case pbSignedBlob of
                None \<Rightarrow>
                  Some ((True, None,
                         unat (GetEncodedLength
                           (ContentInfo pbToBeSigned pbCertContext issuer serial attrs
                              (local_array s 256)))), s)
              | Some blob \<Rightarrow>
                 (let cbToBeEncrypted = unat (GetEncodedLength attrs);
                      (ok, pbToBeEncrypted) = GetEncoded attrs 0 (replicate cbToBeEncrypted None)
                  in if \<not> ok then Some ((False, pbSignedBlob, cbSignedBlob), s)
                     else case SHA1 (take cbToBeEncrypted (settle s pbToBeEncrypted)) of
                       None \<Rightarrow> Some ((False, pbSignedBlob, cbSignedBlob), s)
                     | Some digest2 \<Rightarrow> do {
                         let Padded = Padding (sha1_prefix @ take 20 digest2) 35 (replicate 256 0);
                         ((x, RsaEncryption), s1) \<leftarrow> SignML wKid Padded (local_array s 256) slot s;
                         if x \<noteq> C_OK then Some ((False, pbSignedBlob, cbSignedBlob), s1)
                         else (let ci = ContentInfo pbToBeSigned pbCertContext issuer serial
                                          attrs RsaEncryption
                               in Some ((True, Some (snd (GetEncoded ci 0 blob)),
                                         unat (GetEncodedLength ci)), s1))
                       }))))"

text \<open>
  \<open>PKCS7SignML\<close>. The files are arguments: \<open>input\<close> is the contents of the input file
  (\<open>None\<close> when \<open>fopen\<close> fails) and \<open>writable\<close> says whether \<open>MemWriteFile\<close> can create the
  output file; allocations succeed. The result is the return code and the output file
  written, if any. The \<open>assert\<close> after \<open>SignDataML\<close> is compiled out (\<open>NDEBUG\<close>). The two
  \<open>SelectML\<close> calls of the function assign \<open>ritorno\<close>, which the next assignment
  overwrites.
\<close>

definition PKCS7SignML ::
  "sha1_fun \<Rightarrow> utc \<Rightarrow> byte list \<Rightarrow> nat \<Rightarrow> byte list option \<Rightarrow> bool \<Rightarrow> bool \<Rightarrow> hal
     \<Rightarrow> ((int \<times> byte list option) \<times> hal) option" where
  "PKCS7SignML SHA1 now pin slot input writable bInitialize s =
     (case input of
        None \<Rightarrow> Some ((C_GENERIC_ERROR, None), s)
      | Some dati \<Rightarrow>
         (let (iInitRes, s0) = (if bInitialize then Initialize slot s else (C_OK, s)) in
          if bInitialize \<and> iInitRes \<noteq> C_OK \<and> iInitRes \<noteq> C_ALREADY_INITIALIZED
          then Some ((iInitRes, None), s0)
          else do {
            (ritorno1, s1) \<leftarrow> SelectML 0x0000 slot s0;
            (ritorno2, s2) \<leftarrow> SelectML 0x1111 slot s1;
            (ritorno, s3) \<leftarrow> VerifyPINML 1 pin slot s2;
            if ritorno \<noteq> C_OK then Some ((ritorno, None), s3)
            else do {
              (kid, s4) \<leftarrow> GetKeyIDML slot s3;
              if kid = 0 then Some ((C_GENERIC_ERROR, None), s4)
              else do {
                ((c1, cert0, dim1), s5) \<leftarrow> GetCertificateML None (Some 0) slot s4;
                lenCer \<leftarrow> dim1;
                if c1 \<noteq> C_WRONG_LEN \<and> c1 \<noteq> C_OK then Some ((c1, None), s5)
                else do {
                  ((c2, cert1, dim2), s6) \<leftarrow>
                     GetCertificateML (Some (local_array s5 (lenCer + 1))) (Some lenCer) slot s5;
                  if c2 \<noteq> C_OK then Some ((c2, None), s6)
                  else do {
                    certificato \<leftarrow> cert1;
                    lenCer2 \<leftarrow> dim2;
                    let dwSignedBlobLen = length dati + lenCer2 + 128 + 1024 * 8;
                    ((bRes, blob, cbBlob), s7) \<leftarrow>
                       SignDataML SHA1 now slot (unat kid) (take lenCer2 certificato) dati
                         (Some (replicate dwSignedBlobLen None)) dwSignedBlobLen s6;
                    pSignedBlob \<leftarrow> blob;
                    let risultato = (if \<not> bRes then C_GENERIC_ERROR
                                     else if writable then C_OK else C_GENERIC_ERROR);
                    let output = (if bRes \<and> writable then Some (take cbBlob (settle s7 pSignedBlob))
                                  else None);
                    Some ((risultato, output),
                          if bInitialize \<and> iInitRes = C_OK then snd (FinalizeML slot s7) else s7)
                  }
                }
              }
            }
          }))"

subsection \<open>A signing session\<close>

text \<open>
  One run of \<open>PKCS7SignML\<close> against a card, as the list of the card's answers. \<open>answer_9000\<close>
  is an empty response with status \<open>9000\<close>. \<open>key_id_answers\<close> are the answers to
  \<open>GetKeyIDML\<close>: three SELECTs and the first record of the key file, whose byte is the key
  identifier 1. \<open>small_certificate\<close> is a minimal DER value that \<open>issuer_and_serial\<close>
  accepts (a certificate body with serial number 1 and empty fields). \<open>sign_session\<close> is the
  whole run: the two SELECTs and the VERIFY of \<open>PKCS7SignML\<close>, the key identifier, the
  certificate length, the certificate (each of the two after the key identifier and a SELECT),
  and then the six commands of \<open>SignML\<close>, of which the answers to MSE SET and to PSO
  COMPUTE DIGITAL SIGNATURE are arguments. \<open>digest_zero\<close> is a hash function whose digests
  are twenty zero bytes.
\<close>

definition answer_9000 :: driver_answer where
  "answer_9000 = Transmitted [] 0x90 0x00"

definition key_id_answers :: "driver_answer list" where
  "key_id_answers = [answer_9000, answer_9000, answer_9000, Transmitted [1] 0x90 0x00]"

definition small_certificate :: "byte list" where
  "small_certificate =
     [0x30, 0x13, 0x30, 0x0D, 0x02, 0x01, 0x01, 0x30, 0x00, 0x30, 0x00, 0x30, 0x00, 0x30, 0x00,
      0x30, 0x00, 0x30, 0x00, 0x03, 0x00]"

definition sign_session :: "driver_answer \<Rightarrow> driver_answer \<Rightarrow> driver_answer \<Rightarrow> driver_answer list" where
  "sign_session verify mse pso =
     [answer_9000, answer_9000, verify] @ key_id_answers @
     (key_id_answers @ [answer_9000, Transmitted [21, 0] 0x90 0x00]) @
     (key_id_answers @ [answer_9000, Transmitted [21, 0] 0x90 0x00,
                        Transmitted small_certificate 0x90 0x00]) @
     [answer_9000, answer_9000, answer_9000, answer_9000, mse, pso]"

definition digest_zero :: sha1_fun where
  "digest_zero m = Some (replicate 20 0)"

chapter \<open>Properties\<close>

section \<open>Transaction depth\<close>

lemmas code_defs =
  C_OK_def C_NOT_INITIALIZED_def C_NO_CARD_def C_WRONG_LENGTH_def C_FILE_NOT_FOUND_def
  C_RECORD_NOT_FOUND_def C_WRONG_LEN_def C_UNKNOWN_OBJECT_def C_GENERIC_ERROR_def
  SW_OK_def SW_WRONG_LENGTH_def SW_AUTH_FAILED_def

lemma int_incr_in_range: "- (2 ^ 31) \<le> d \<Longrightarrow> d < 2 ^ 31 - 1 \<Longrightarrow> int_incr d = d + 1"
  by (simp add: int_incr_def)

lemma depth_Begin: "depth nSlot (snd (BeginTransactionML nSlot s)) = int_incr (depth nSlot s)"
  by (simp add: depth_def BeginTransactionML_def set_depth_def log_call_def Let_def)

lemma depth_End:
  "depth nSlot (snd (EndTransactionML nSlot s)) =
     (if 0 < depth nSlot s then depth nSlot s - 1 else depth nSlot s)"
  by (simp add: depth_def EndTransactionML_def set_depth_def log_call_def Let_def)

lemma depth_tx_run_bounds:
  "0 \<le> depth nSlot s \<Longrightarrow> depth nSlot s + int (length ops) < 2 ^ 31 \<Longrightarrow>
   0 \<le> depth nSlot (tx_run nSlot ops s) \<and>
   depth nSlot (tx_run nSlot ops s) \<le> depth nSlot s + int (length ops)"
proof (induction ops arbitrary: s)
  case Nil
  then show ?case by simp
next
  case (Cons c cs)
  show ?case
  proof (cases c)
    case Begin
    have step: "depth nSlot (tx_step nSlot c s) = depth nSlot s + 1"
      using Cons.prems Begin by (simp add: depth_Begin int_incr_in_range)
    with Cons.prems Cons.IH [of "tx_step nSlot c s"] show ?thesis by simp
  next
    case End
    have step: "0 \<le> depth nSlot (tx_step nSlot c s) \<and>
                depth nSlot (tx_step nSlot c s) \<le> depth nSlot s"
      using Cons.prems End by (simp add: depth_End)
    with Cons.prems Cons.IH [of "tx_step nSlot c s"] show ?thesis by simp
  qed
qed

lemma depth_tx_run_nested:
  "0 \<le> depth nSlot s \<Longrightarrow> depth nSlot s + int (length ops) < 2 ^ 31 \<Longrightarrow>
   \<forall>k \<le> length ops. int (count_list (take k ops) End)
                        \<le> depth nSlot s + int (count_list (take k ops) Begin) \<Longrightarrow>
   depth nSlot (tx_run nSlot ops s) =
     depth nSlot s + int (count_list ops Begin) - int (count_list ops End)"
proof (induction ops arbitrary: s)
  case Nil
  then show ?case by simp
next
  case (Cons c cs)
  have pre: "int (count_list (take (Suc k) (c # cs)) End)
               \<le> depth nSlot s + int (count_list (take (Suc k) (c # cs)) Begin)"
    if "k \<le> length cs" for k
    using Cons.prems(3) that by (metis Suc_le_mono length_Cons)
  show ?case
  proof (cases c)
    case Begin
    have step: "depth nSlot (tx_step nSlot c s) = depth nSlot s + 1"
      using Cons.prems Begin by (simp add: depth_Begin int_incr_in_range)
    have "\<forall>k \<le> length cs. int (count_list (take k cs) End)
            \<le> depth nSlot (tx_step nSlot c s) + int (count_list (take k cs) Begin)"
    proof (intro allI impI)
      fix k assume "k \<le> length cs"
      from pre [OF this] Begin step
      show "int (count_list (take k cs) End)
              \<le> depth nSlot (tx_step nSlot c s) + int (count_list (take k cs) Begin)"
        by simp
    qed
    with Cons.prems step Cons.IH [of "tx_step nSlot c s"] Begin show ?thesis by simp
  next
    case End
    from pre [of 0] End have pos: "0 < depth nSlot s" by simp
    have step: "depth nSlot (tx_step nSlot c s) = depth nSlot s - 1"
      using End pos by (simp add: depth_End)
    have "\<forall>k \<le> length cs. int (count_list (take k cs) End)
            \<le> depth nSlot (tx_step nSlot c s) + int (count_list (take k cs) Begin)"
    proof (intro allI impI)
      fix k assume "k \<le> length cs"
      from pre [OF this] End step
      show "int (count_list (take k cs) End)
              \<le> depth nSlot (tx_step nSlot c s) + int (count_list (take k cs) Begin)"
        by simp
    qed
    with Cons.prems step pos Cons.IH [of "tx_step nSlot c s"] End show ?thesis by simp
  qed
qed

text \<open>
  Claim C5, as stated: after any sequence with as many \<open>begin\<close> as \<open>end\<close> calls the depth is
  0. An \<open>end\<close> at depth 0 is ignored by the guard of \<open>EndTransactionML\<close>, so the sequence
  end, begin leaves the depth at 1.
\<close>

theorem transaction_depth_counterexample:
  "count_list [End, Begin] Begin = count_list [End, Begin] End \<and>
   depth 0 (tx_run 0 [End, Begin] (hal_init [])) = 1"
  by (simp add: depth_def hal_init_def BeginTransactionML_def EndTransactionML_def
      set_depth_def log_call_def int_incr_def)

text \<open>
  Claim C5, amended: starting from depth 0, for every sequence of fewer than \<open>2^31\<close> begin
  and end calls on one slot, the depth is at least 0 after every call; and when no prefix
  of the sequence holds more ends than begins, the final depth is the number of begins
  minus the number of ends, hence 0 when the two are equal.
\<close>

theorem transaction_depth:
  assumes "depth nSlot s = 0" and "length ops < 2 ^ 31"
  shows "(\<forall>k \<le> length ops. 0 \<le> depth nSlot (tx_run nSlot (take k ops) s)) \<and>
         ((\<forall>k \<le> length ops. count_list (take k ops) End \<le> count_list (take k ops) Begin) \<longrightarrow>
            depth nSlot (tx_run nSlot ops s) =
              int (count_list ops Begin) - int (count_list ops End))"
proof (intro conjI allI impI)
  fix k assume "k \<le> length ops"
  have "int (length (take k ops)) < 2 ^ 31" using assms(2) by simp
  with assms(1) depth_tx_run_bounds [of nSlot s "take k ops"]
  show "0 \<le> depth nSlot (tx_run nSlot (take k ops) s)" by simp
next
  assume n: "\<forall>k \<le> length ops. count_list (take k ops) End \<le> count_list (take k ops) Begin"
  have "int (length ops) < 2 ^ 31" using assms(2) by simp
  with assms(1) n depth_tx_run_nested [of nSlot s ops]
  show "depth nSlot (tx_run nSlot ops s) = int (count_list ops Begin) - int (count_list ops End)"
    by simp
qed

theorem transaction_depth_witness:
  "depth 0 (tx_run 0 [Begin, Begin, End, End] (hal_init [])) = 0 \<and>
   0 \<le> depth 0 (tx_run 0 (take 3 [Begin, Begin, End, End]) (hal_init []))"
proof -
  let ?ops = "[Begin, Begin, End, End]"
  have d: "depth 0 (hal_init []) = 0"
    by (simp add: depth_def hal_init_def)
  have l: "length ?ops < 2 ^ 31" by simp
  have n: "\<forall>k \<le> length ?ops. count_list (take k ?ops) End \<le> count_list (take k ?ops) Begin"
  proof (intro allI impI)
    fix k assume "k \<le> length ?ops"
    then have "k = 0 \<or> k = 1 \<or> k = 2 \<or> k = 3 \<or> k = 4" by auto
    then show "count_list (take k ?ops) End \<le> count_list (take k ?ops) Begin"
      by (elim disjE) (simp_all add: numeral_2_eq_2 numeral_3_eq_3)
  qed
  from transaction_depth [OF d l] n
  have a: "\<forall>k \<le> length ?ops. 0 \<le> depth 0 (tx_run 0 (take k ?ops) (hal_init []))"
    and b: "depth 0 (tx_run 0 ?ops (hal_init [])) =
              int (count_list ?ops Begin) - int (count_list ?ops End)"
    by blast+
  from a have "3 \<le> length ?ops \<longrightarrow> 0 \<le> depth 0 (tx_run 0 (take 3 ?ops) (hal_init []))"
    by (rule spec)
  then have "0 \<le> depth 0 (tx_run 0 (take 3 ?ops) (hal_init []))" by simp
  moreover from b have "depth 0 (tx_run 0 ?ops (hal_init [])) = 0" by simp
  ultimately show ?thesis by blast
qed

section \<open>Reset recovery in \<open>SendAPDUML\<close>\<close>

lemma log_call_simps [simp]:
  "hCardsTransactions (log_call c s) = hCardsTransactions s"
  "initialized (log_call c s) = initialized s"
  "script (log_call c s) = script s"
  "junk (log_call c s) = junk s"
  "calls (log_call c s) = calls s @ [c]"
  by (simp_all add: log_call_def)

lemma recovers_cong: "hCardsTransactions s' nSlot = hCardsTransactions s nSlot \<Longrightarrow> recovers s' nSlot a = recovers s nSlot a"
  by (cases a) simp_all

lemma recovery_calls_cong: "hCardsTransactions s' nSlot = hCardsTransactions s nSlot \<Longrightarrow> recovery_calls s' nSlot = recovery_calls s nSlot"
  by (simp add: recovery_calls_def)

lemma recovery_calls_upd [simp]:
  "recovery_calls (s\<lparr>script := x\<rparr>) n = recovery_calls s n"
  "recovery_calls (s\<lparr>calls := y\<rparr>) n = recovery_calls s n"
  by (simp_all add: recovery_calls_def)

lemma recovers_upd [simp]:
  "recovers (s\<lparr>script := x\<rparr>) n a = recovers s n a"
  "recovers (s\<lparr>calls := y\<rparr>) n a = recovers s n a"
  by (cases a; simp)+

lemma retryTransmit_last:
  assumes that: "\<not> recovers s nSlot a"
  shows "retryTransmit nSlot apdu pLe outBuffer SW (a # rest) s =
     map_option (\<lambda>r. (r, s\<lparr>script := rest,
        calls := calls s @ SCardTransmit nSlot apdu # (if is_reset a then recovery_calls s nSlot else [])\<rparr>))
       (final_answer a pLe outBuffer SW)"
proof (cases a)
  case (Transmitted data sw1 sw2)
  then show ?thesis by (simp add: Let_def log_call_def)
next
  case (Reset_Card rc bt)
  with that show ?thesis by (simp add: Let_def log_call_def recovery_calls_def)
next
  case (Transmit_Error e)
  then show ?thesis by (simp add: Let_def log_call_def)
qed

lemma retryTransmit_resets:
  "\<forall>r \<in> set rs. recovers s nSlot r \<Longrightarrow> \<not> recovers s nSlot a \<Longrightarrow>
   retryTransmit nSlot apdu pLe outBuffer SW (rs @ a # rest) s =
     map_option (\<lambda>r. (r, s\<lparr>script := rest,
        calls := calls s @ concat (map (\<lambda>_. SCardTransmit nSlot apdu # recovery_calls s nSlot) rs)
                 @ SCardTransmit nSlot apdu # (if is_reset a then recovery_calls s nSlot else [])\<rparr>))
       (final_answer a (if rs = [] then pLe else map_option (\<lambda>_. 0) pLe) outBuffer SW)"
proof (induction rs arbitrary: s pLe)
  case Nil
  then show ?case by (simp add: retryTransmit_last del: retryTransmit.simps)
next
  case (Cons r rs)
  from Cons.prems obtain rc bt where r: "r = Reset_Card rc bt" by (cases r) auto
  let ?s3 = "s\<lparr>script := rs @ a # rest, calls := calls s @ SCardTransmit nSlot apdu # recovery_calls s nSlot\<rparr>"
  have d: "hCardsTransactions ?s3 nSlot = hCardsTransactions s nSlot" by simp
  have step: "retryTransmit nSlot apdu pLe outBuffer SW ((r # rs) @ a # rest) s =
        retryTransmit nSlot apdu (map_option (\<lambda>_. 0) pLe) outBuffer SW (rs @ a # rest) ?s3"
    using Cons.prems(1) r by (simp add: Let_def log_call_def recovery_calls_def)
  have "\<forall>r \<in> set rs. recovers ?s3 nSlot r" "\<not> recovers ?s3 nSlot a"
    using Cons.prems by simp_all
  from Cons.IH [OF this, of "map_option (\<lambda>_. 0) pLe"] step
  show ?case by (simp add: option.map_comp comp_def del: retryTransmit.simps)
qed


text \<open>
  Claim C3, amended: when the driver reports that the card was reset, \<open>SendAPDUML\<close>
  reconnects, takes the driver lock again when the slot's transaction depth is positive,
  and, when that recovery reports success, transmits the identical APDU again; it does so
  after every such reset, however many follow one another (\<open>rs\<close> below), and the call ends
  with the first answer \<open>a\<close> that is not a recovered reset: \<open>C_NO_CARD\<close> when \<open>a\<close> is a
  reset whose recovery failed or the driver says the card is gone, \<open>C_GENERIC_ERROR\<close> for
  another driver error, and the card's response otherwise.
\<close>

theorem SendAPDUML_reset_retry:
  assumes "build_apdu cmd Lc pLe inBuffer = Some apdu"
    and "script s = rs @ a # rest"
    and "\<forall>r \<in> set rs. recovers s nSlot r"
    and "\<not> recovers s nSlot a"
  shows "SendAPDUML nSlot cmd Lc pLe inBuffer outBuffer SW s =
     map_option (\<lambda>r. (r, s\<lparr>script := rest,
        calls := calls s @ concat (map (\<lambda>_. SCardTransmit nSlot apdu # recovery_calls s nSlot) rs)
                 @ SCardTransmit nSlot apdu # (if is_reset a then recovery_calls s nSlot else [])\<rparr>))
       (final_answer a (if rs = [] then pLe else map_option (\<lambda>_. 0) pLe) outBuffer SW)"
  using assms retryTransmit_resets [of rs s nSlot a apdu pLe outBuffer SW rest]
  by (simp add: SendAPDUML_def del: retryTransmit.simps)

lemma select_apdu: "build_apdu APDU_SELECT 2 None [0x3f, 0x00] = Some [0x00, 0xa4, 0x00, 0x00, 0x02, 0x3f, 0x00]"
  by (simp add: build_apdu_def APDU_SELECT_def)

text \<open>
  Claim C3, as stated: a reset reported again on the retry ends the call with \<open>NoCard\<close>.
  The loop has no counter: after two resets in a row the APDU goes out a third time and
  the call returns \<open>C_OK\<close>.
\<close>

theorem SendAPDUML_second_reset_counterexample:
  "map_option (rv_of \<circ> fst)
     (SendAPDUML 0 APDU_SELECT 2 None [0x3f, 0x00] None 0
        (hal_init [Reset_Card True True, Reset_Card True True, Transmitted [] 0x90 0x00]))
     = Some C_OK \<and>
   map_option (transmitted \<circ> calls \<circ> snd)
     (SendAPDUML 0 APDU_SELECT 2 None [0x3f, 0x00] None 0
        (hal_init [Reset_Card True True, Reset_Card True True, Transmitted [] 0x90 0x00]))
     = Some [[0x00, 0xa4, 0x00, 0x00, 0x02, 0x3f, 0x00],
             [0x00, 0xa4, 0x00, 0x00, 0x02, 0x3f, 0x00],
             [0x00, 0xa4, 0x00, 0x00, 0x02, 0x3f, 0x00]] \<and>
   C_OK \<noteq> C_NO_CARD"
  by (simp add: SendAPDUML_def select_apdu hal_init_def deliver_def log_call_def Let_def code_defs)


theorem SendAPDUML_reset_retry_witness:
  "map_option (rv_of \<circ> fst)
     (SendAPDUML 0 APDU_SELECT 2 None [0x3f, 0x00] None 0
        (snd (BeginTransactionML 0
           (hal_init [Reset_Card False True, Reset_Card True True, Reset_Card True False]))))
     = Some C_NO_CARD \<and>
   map_option (calls \<circ> snd)
     (SendAPDUML 0 APDU_SELECT 2 None [0x3f, 0x00] None 0
        (snd (BeginTransactionML 0
           (hal_init [Reset_Card False True, Reset_Card True True, Reset_Card True False]))))
     = Some [SCardBeginTransaction 0,
             SCardTransmit 0 [0x00, 0xa4, 0x00, 0x00, 0x02, 0x3f, 0x00],
             SCardReconnect 0, SCardBeginTransaction 0,
             SCardTransmit 0 [0x00, 0xa4, 0x00, 0x00, 0x02, 0x3f, 0x00],
             SCardReconnect 0, SCardBeginTransaction 0,
             SCardTransmit 0 [0x00, 0xa4, 0x00, 0x00, 0x02, 0x3f, 0x00],
             SCardReconnect 0, SCardBeginTransaction 0]"
proof -
  let ?s = "snd (BeginTransactionML 0
              (hal_init [Reset_Card False True, Reset_Card True True, Reset_Card True False]))"
  have d: "hCardsTransactions ?s 0 = 1"
    by (simp add: BeginTransactionML_def hal_init_def set_depth_def log_call_def int_incr_def)
  have c: "calls ?s = [SCardBeginTransaction 0]"
    by (simp add: BeginTransactionML_def hal_init_def set_depth_def log_call_def)
  have scr: "script ?s = [Reset_Card False True, Reset_Card True True] @ Reset_Card True False # []"
    by (simp add: BeginTransactionML_def hal_init_def set_depth_def log_call_def)
  have rec: "\<forall>r \<in> set [Reset_Card False True, Reset_Card True True]. recovers ?s 0 r"
    using d by simp
  have last: "\<not> recovers ?s 0 (Reset_Card True False)"
    using d by simp
  from SendAPDUML_reset_retry [OF select_apdu scr rec last, of None 0] d c
  show ?thesis by (simp add: recovery_calls_def)
qed

section \<open>Calls return when the driver answers\<close>

lemma BeginTransactionML_keeps [simp]:
  "script (snd (BeginTransactionML nSlot s)) = script s"
  "initialized (snd (BeginTransactionML nSlot s)) = initialized s"
  "junk (snd (BeginTransactionML nSlot s)) = junk s"
  by (simp_all add: BeginTransactionML_def set_depth_def Let_def)

lemma EndTransactionML_keeps [simp]:
  "script (snd (EndTransactionML nSlot s)) = script s"
  "initialized (snd (EndTransactionML nSlot s)) = initialized s"
  "junk (snd (EndTransactionML nSlot s)) = junk s"
  by (simp_all add: EndTransactionML_def set_depth_def Let_def)

lemma answers_left_keeps [simp]:
  "answers_left (snd (BeginTransactionML nSlot s)) = answers_left s"
  "answers_left (snd (EndTransactionML nSlot s)) = answers_left s"
  by (simp_all add: answers_left_def)

lemma local_array_keeps [simp]:
  "local_array (snd (BeginTransactionML nSlot s)) n = local_array s n"
  "local_array (snd (EndTransactionML nSlot s)) n = local_array s n"
  by (simp_all add: local_array_def)

lemma deliver_returns:
  "(outBuffer \<noteq> None \<longrightarrow> pLe \<noteq> None) \<Longrightarrow>
   \<exists>r. deliver data sw1 sw2 pLe outBuffer = Some r \<and> rv_of r = C_OK \<and>
       SW_of r = status_word sw1 sw2 \<and>
       (Le_of r = None \<longleftrightarrow> pLe = None) \<and> (out_of r = None \<longleftrightarrow> outBuffer = None)"
  by (cases outBuffer; cases pLe) (auto simp: deliver_def Let_def)

lemma retryTransmit_returns:
  "filter (\<lambda>a. \<not> is_reset a) xs \<noteq> [] \<Longrightarrow> (outBuffer \<noteq> None \<longrightarrow> pLe \<noteq> None) \<Longrightarrow>
   \<exists>r s'. retryTransmit nSlot apdu pLe outBuffer SW xs s = Some (r, s') \<and>
       length (filter (\<lambda>a. \<not> is_reset a) xs) \<le> Suc (answers_left s') \<and>
       initialized s' = initialized s \<and> junk s' = junk s \<and>
       (Le_of r = None \<longleftrightarrow> pLe = None) \<and> (out_of r = None \<longleftrightarrow> outBuffer = None)"
proof (induction xs arbitrary: s pLe)
  case Nil
  then show ?case by simp
next
  case (Cons a xs)
  show ?case
  proof (cases a)
    case (Transmitted data sw1 sw2)
    from deliver_returns [OF Cons.prems(2), of data sw1 sw2] obtain r where
      "deliver data sw1 sw2 pLe outBuffer = Some r"
      "Le_of r = None \<longleftrightarrow> pLe = None" "out_of r = None \<longleftrightarrow> outBuffer = None" by auto
    with Transmitted show ?thesis by (simp add: Let_def answers_left_def)
  next
    case (Transmit_Error e)
    then show ?thesis by (simp add: Let_def answers_left_def)
  next
    case (Reset_Card rc bt)
    let ?s1 = "log_call (SCardTransmit nSlot apdu) (s\<lparr>script := xs\<rparr>)"
    let ?s2 = "log_call (SCardReconnect nSlot) ?s1"
    let ?s3 = "if 0 < hCardsTransactions ?s2 nSlot then log_call (SCardBeginTransaction nSlot) ?s2 else ?s2"
    let ?p0 = "map_option (\<lambda>_. 0 :: byte) pLe"
    have f: "filter (\<lambda>a. \<not> is_reset a) xs \<noteq> []" using Cons.prems(1) Reset_Card by simp
    have p: "outBuffer \<noteq> None \<longrightarrow> ?p0 \<noteq> None" using Cons.prems(2) by simp
    from Cons.IH [OF f p, of ?s3] obtain r s' where
      rs: "retryTransmit nSlot apdu ?p0 outBuffer SW xs ?s3 = Some (r, s')"
        "length (filter (\<lambda>a. \<not> is_reset a) xs) \<le> Suc (answers_left s')"
        "initialized s' = initialized ?s3" "junk s' = junk ?s3"
        "Le_of r = None \<longleftrightarrow> ?p0 = None" "out_of r = None \<longleftrightarrow> outBuffer = None"
      by auto
    show ?thesis
    proof (cases "if 0 < hCardsTransactions ?s2 nSlot then bt else rc")
      case True
      with rs Reset_Card show ?thesis by (simp add: Let_def)
    next
      case False
      with Reset_Card show ?thesis by (simp add: Let_def answers_left_def)
    qed
  qed
qed

lemma SendAPDUML_returns:
  assumes "build_apdu cmd Lc pLe inBuffer = Some apdu" and "0 < answers_left s"
    and "outBuffer \<noteq> None \<longrightarrow> pLe \<noteq> None"
  shows "\<exists>r s'. SendAPDUML nSlot cmd Lc pLe inBuffer outBuffer SW s = Some (r, s') \<and>
       answers_left s \<le> Suc (answers_left s') \<and>
       initialized s' = initialized s \<and> junk s' = junk s \<and>
       (Le_of r = None \<longleftrightarrow> pLe = None) \<and> (out_of r = None \<longleftrightarrow> outBuffer = None)"
proof -
  have "filter (\<lambda>a. \<not> is_reset a) (script s) \<noteq> []"
    using assms(2) by (simp add: answers_left_def)
  from retryTransmit_returns [OF this assms(3), of nSlot apdu SW s] assms(1)
  show ?thesis by (simp add: SendAPDUML_def answers_left_def del: retryTransmit.simps)
qed

lemma select_apdu_any:
  "build_apdu APDU_SELECT 2 None [hi, lo] = Some [0x00, 0xa4, 0x00, 0x00, 0x02, hi, lo]"
  by (simp add: build_apdu_def APDU_SELECT_def)

lemma SelectML_returns:
  assumes "0 < answers_left s"
  shows "\<exists>x s'. SelectML fid nSlot s = Some (x, s') \<and> answers_left s \<le> Suc (answers_left s') \<and>
       initialized s' = initialized s \<and> junk s' = junk s"
proof -
  let ?s1 = "snd (BeginTransactionML nSlot s)"
  have pos: "0 < answers_left ?s1" using assms by simp
  have "\<exists>r s2. SendAPDUML nSlot APDU_SELECT 2 None [hi, lo] None 0 ?s1 = Some (r, s2) \<and>
      answers_left s \<le> Suc (answers_left s2) \<and> initialized s2 = initialized s \<and> junk s2 = junk s"
    for hi lo
  proof -
    from SendAPDUML_returns [OF select_apdu_any [of hi lo] pos,
        where outBuffer = None and SW = 0 and nSlot = nSlot]
    show ?thesis by auto
  qed
  from this [of "ucast (drop_bit 8 (fid AND 0xff00))" "ucast (fid AND 0x00ff)"]
  show ?thesis unfolding SelectML_def Let_def by auto
qed


lemma read_apdu_0:
  "build_apdu (APDU_READBINARY OR ucast (0 :: 16 word)) 0 (Some le) [] =
     Some [0x00, 0xb0, 0x00, 0x00, le]"
  by (simp add: build_apdu_def APDU_READBINARY_def)

lemma ReadBinary_blocks_short_returns:
  assumes "0 < answers_left s" and "0 < len" and "len < EXCHANGE_BUFFER"
  shows "\<exists>x b l s'. ReadBinary_blocks nSlot 0 len letti blockLen SW tmpBuffer buf Len s
            = Some ((x, b, l), s') \<and>
       answers_left s \<le> Suc (answers_left s') \<and>
       initialized s' = initialized s \<and> junk s' = junk s"
proof -
  from SendAPDUML_returns [OF read_apdu_0 assms(1),
      where outBuffer = "Some tmpBuffer" and SW = SW and nSlot = nSlot and le1 = "of_nat len"]
  obtain r s1 where r:
    "SendAPDUML nSlot (APDU_READBINARY OR ucast (0 :: 16 word)) 0 (Some (of_nat len)) []
       (Some tmpBuffer) SW s = Some (r, s1)"
    "answers_left s \<le> Suc (answers_left s1)" "initialized s1 = initialized s" "junk s1 = junk s"
    "Le_of r \<noteq> None" "out_of r \<noteq> None"
    by auto
  then obtain le out where "Le_of r = Some le" "out_of r = Some out" by auto
  with r assms(2,3) show ?thesis
    by (subst ReadBinary_blocks.simps) auto
qed

lemma ReadBinaryML_short_returns:
  assumes "0 < answers_left s" and "0 < len" and "len < EXCHANGE_BUFFER"
  shows "\<exists>x b l s'. ReadBinaryML 0 (Some buf) (Some len) nSlot s = Some ((x, Some b, Some l), s') \<and>
       answers_left s \<le> Suc (answers_left s') \<and>
       initialized s' = initialized s \<and> junk s' = junk s"
proof (cases "initialized s")
  case False
  then show ?thesis by (simp add: ReadBinaryML_def)
next
  case True
  let ?s0 = "snd (BeginTransactionML nSlot s)"
  have "0 < answers_left ?s0" using assms(1) by simp
  from ReadBinary_blocks_short_returns [OF this assms(2,3),
      of nSlot 0 "of_nat EXCHANGE_BUFFER" 0 "local_array s 256" buf len]
  obtain x b l s' where
    "ReadBinary_blocks nSlot 0 len 0 (of_nat EXCHANGE_BUFFER) 0 (local_array s 256) buf len ?s0
       = Some ((x, b, l), s')"
    "answers_left ?s0 \<le> Suc (answers_left s')" "initialized s' = initialized ?s0"
    "junk s' = junk ?s0"
    by auto
  with True assms(2) show ?thesis by (simp add: ReadBinaryML_def)
qed


section \<open>The serial number\<close>

text \<open>
  Claim C10: on an initialized library, \<open>GetSNML\<close> returns \<open>C_OK\<close> whatever happens, and
  when the \<open>SelectML\<close> of the master file, the \<open>SelectML\<close> of EF GDO or the \<open>ReadBinaryML\<close>
  of the 26 bytes returns a code other than \<open>C_OK\<close>, the caller's \<open>serial\<close> buffer is as it
  was. The call returns as soon as the driver gives three answers that are not card
  resets (one for each APDU).
\<close>

theorem GetSNML_returns_OK:
  assumes "initialized s" and "3 \<le> answers_left s"
  shows "\<exists>serial' s'. GetSNML serial nSlot s = Some ((C_OK, serial'), s') \<and>
     (\<forall>x s1. SelectML 0x3f00 nSlot (snd (BeginTransactionML nSlot s)) = Some (x, s1) \<longrightarrow>
        (x \<noteq> C_OK \<longrightarrow> serial' = serial) \<and>
        (\<forall>y s2. SelectML 0x2f02 nSlot s1 = Some (y, s2) \<longrightarrow>
           (y \<noteq> C_OK \<longrightarrow> serial' = serial) \<and>
           (\<forall>z ef_gdo l s3.
              ReadBinaryML 0 (Some (local_array s2 26)) (Some 26) nSlot s2 = Some ((z, ef_gdo, l), s3) \<longrightarrow>
              (z \<noteq> C_OK \<longrightarrow> serial' = serial))))"
proof -
  let ?s0 = "snd (BeginTransactionML nSlot s)"
  have a0: "0 < answers_left ?s0" using assms(2) by simp
  from SelectML_returns [OF a0, of "0x3f00" nSlot] obtain x s1 where
    s1: "SelectML 0x3f00 nSlot ?s0 = Some (x, s1)" "answers_left ?s0 \<le> Suc (answers_left s1)"
    by auto
  then have a1: "0 < answers_left s1" using assms(2) by simp
  from SelectML_returns [OF a1, of "0x2f02" nSlot] obtain y s2 where
    s2: "SelectML 0x2f02 nSlot s1 = Some (y, s2)" "answers_left s1 \<le> Suc (answers_left s2)"
    by auto
  then have a2: "0 < answers_left s2" using s1(2) assms(2) by simp
  from ReadBinaryML_short_returns [OF a2, of 26 "local_array s2 26" nSlot] obtain z b l s3 where
    s3: "ReadBinaryML 0 (Some (local_array s2 26)) (Some 26) nSlot s2 = Some ((z, Some b, Some l), s3)"
    by (auto simp: EXCHANGE_BUFFER_def)
  from assms(1) s1(1) s2(1) s3 show ?thesis
    by (simp add: GetSNML_def)
qed


lemmas eval_defs =
  SendAPDUML_def build_apdu_def deliver_def status_word_def log_call_def set_depth_def
  BeginTransactionML_def EndTransactionML_def int_incr_def hal_init_def Let_def

theorem GetSNML_returns_OK_witness:
  "map_option fst
     (GetSNML [1, 2, 3, 4, 5, 6, 7, 8] 0
        (hal_init [Transmitted [] 0x90 0x00, Transmitted [] 0x6A 0x82, Transmitted [] 0x90 0x00]))
   = Some (C_OK, [1, 2, 3, 4, 5, 6, 7, 8])"
proof -
  let ?s = "hal_init [Transmitted [] 0x90 0x00, Transmitted [] 0x6A 0x82, Transmitted [] 0x90 0x00]"
  have i: "initialized ?s" by (simp add: hal_init_def)
  have f: "3 \<le> answers_left ?s" by (simp add: answers_left_def hal_init_def)
  have sel: "\<exists>s1. SelectML 0x3f00 0 (snd (BeginTransactionML 0 ?s)) = Some (C_OK, s1) \<and>
               (\<exists>s2. SelectML 0x2f02 0 s1 = Some (0x6A82, s2))"
    by (simp add: SelectML_def APDU_SELECT_def eval_defs code_defs)
  from GetSNML_returns_OK [OF i f, of "[1, 2, 3, 4, 5, 6, 7, 8]" 0] obtain serial' s' where
    g: "GetSNML [1, 2, 3, 4, 5, 6, 7, 8] 0 ?s = Some ((C_OK, serial'), s')" and
    c: "\<forall>x s1. SelectML 0x3f00 0 (snd (BeginTransactionML 0 ?s)) = Some (x, s1) \<longrightarrow>
        (x \<noteq> C_OK \<longrightarrow> serial' = [1, 2, 3, 4, 5, 6, 7, 8]) \<and>
        (\<forall>y s2. SelectML 0x2f02 0 s1 = Some (y, s2) \<longrightarrow>
           (y \<noteq> C_OK \<longrightarrow> serial' = [1, 2, 3, 4, 5, 6, 7, 8]) \<and>
           (\<forall>z ef_gdo l s3.
              ReadBinaryML 0 (Some (local_array s2 26)) (Some 26) 0 s2 = Some ((z, ef_gdo, l), s3) \<longrightarrow>
              (z \<noteq> C_OK \<longrightarrow> serial' = [1, 2, 3, 4, 5, 6, 7, 8])))"
    by blast
  from sel obtain s1 s2 where
    "SelectML 0x3f00 0 (snd (BeginTransactionML 0 ?s)) = Some (C_OK, s1)"
    "SelectML 0x2f02 0 s1 = Some (0x6A82, s2)" by blast
  with c have "(0x6A82 :: int) \<noteq> C_OK \<longrightarrow> serial' = [1, 2, 3, 4, 5, 6, 7, 8]" by blast
  then have "serial' = [1, 2, 3, 4, 5, 6, 7, 8]" by (simp add: C_OK_def)
  with g show ?thesis by simp
qed

section \<open>PIN verification\<close>

lemma transmitted_append [simp]: "transmitted (xs @ ys) = transmitted xs @ transmitted ys"
  by (induction xs rule: transmitted.induct) simp_all

lemma calls_Begin [simp]:
  "calls (snd (BeginTransactionML nSlot s)) = calls s @ (if hCardsTransactions s nSlot = 0 then [SCardBeginTransaction nSlot] else [])"
  by (simp add: BeginTransactionML_def set_depth_def Let_def)

lemma transmitted_End [simp]:
  "transmitted (calls (snd (EndTransactionML nSlot s))) = transmitted (calls s)"
  by (simp add: EndTransactionML_def set_depth_def Let_def)

lemma byte_of_length: "length data \<le> 250 \<Longrightarrow> unat (of_nat (length data) :: byte) = length data"
  by (simp add: unat_of_nat)

lemma byte_of_length_0: "length data \<le> 250 \<Longrightarrow> (of_nat (length data) :: byte) = 0 \<longleftrightarrow> data = []"
proof
  assume a: "length data \<le> 250" "(of_nat (length data) :: byte) = 0"
  then have "unat (of_nat (length data) :: byte) = 0" by simp
  with byte_of_length [OF a(1)] show "data = []" by simp
qed simp

lemma verify_apdu_build:
  assumes "length data \<le> 250"
  shows "build_apdu (APDU_VERIFYPIN OR 0x00000081) (of_nat (length data)) None data = Some (VERIFY data)"
  using assms byte_of_length [OF assms] byte_of_length_0 [OF assms]
  by (simp add: build_apdu_def VERIFY_def APDU_VERIFYPIN_def)

lemma SendAPDUML_verify:
  assumes "length data \<le> 250" and "script s = Transmitted d a b # rest"
  shows "SendAPDUML nSlot (APDU_VERIFYPIN OR 0x00000081) (of_nat (length data)) None data None SW s =
     Some (\<lparr>rv_of = C_OK, Le_of = None, out_of = None, SW_of = status_word a b\<rparr>,
           log_call (SCardTransmit nSlot (VERIFY data)) (s\<lparr>script := rest\<rparr>))"
  using assms by (simp add: SendAPDUML_def verify_apdu_build deliver_def Let_def)


lemma SendAPDUML_verify8:
  assumes "length data = 8" and "script s = Transmitted d a b # rest"
  shows "SendAPDUML nSlot (APDU_VERIFYPIN OR 0x00000081) 8 None data None SW s =
     Some (\<lparr>rv_of = C_OK, Le_of = None, out_of = None, SW_of = status_word a b\<rparr>,
           log_call (SCardTransmit nSlot (VERIFY data)) (s\<lparr>script := rest\<rparr>))"
  using SendAPDUML_verify [of data s d a b rest nSlot SW] assms by simp

lemma SendAPDUML_verify0:
  assumes "script s = Transmitted d a b # rest"
  shows "SendAPDUML nSlot (APDU_VERIFYPIN OR 0x00000081) 0 None [] None SW s =
     Some (\<lparr>rv_of = C_OK, Le_of = None, out_of = None, SW_of = status_word a b\<rparr>,
           log_call (SCardTransmit nSlot (VERIFY [])) (s\<lparr>script := rest\<rparr>))"
  using SendAPDUML_verify [of "[]" s d a b rest nSlot SW] assms by simp

lemma length_padded_pin: "length (memcpy (replicate 8 0) pin (min (length pin) 8)) = 8"
  by (simp add: memcpy_def)

text \<open>
  Claim C4, amended: on an initialized library, for PIN id 1 and a PIN of at most 250
  characters, when the card answers each VERIFY that is transmitted: \<open>VerifyPINML\<close> first
  sends VERIFY with \<open>Lc\<close> the length of the PIN; on \<open>6700\<close> it sends VERIFY once more with
  \<open>Lc = 8\<close> and the PIN cut or zero-padded to 8 bytes; when the latest answer is \<open>6300\<close> it
  sends VERIFY with \<open>Lc = 0\<close> and returns the status word of that query as it is, also
  when it is \<open>9000\<close>; otherwise it returns \<open>C_OK\<close> when the latest status word is
  \<open>9000\<close> and the status word when it is not. \<open>C_OK\<close> is the number \<open>0x0000\<close>, so the
  result is \<open>C_OK\<close> exactly when the latest status word is \<open>9000\<close> or \<open>0000\<close> on the
  paths without \<open>6300\<close>, and exactly when the status word of the \<open>Lc = 0\<close> query is
  \<open>0000\<close> on the paths with it.
\<close>

theorem VerifyPINML_sequence:
  assumes "initialized s" and "length pin \<le> 250"
    and "script s = Transmitted d1 a1 b1 # rest"
  shows
   "(status_word a1 b1 \<noteq> 0x6700 \<and> status_word a1 b1 \<noteq> 0x6300 \<longrightarrow>
       map_option fst (VerifyPINML 1 pin nSlot s) =
         Some (if status_word a1 b1 = 0x9000 then C_OK else status_word a1 b1) \<and>
       (map_option fst (VerifyPINML 1 pin nSlot s) = Some C_OK \<longleftrightarrow>
          status_word a1 b1 = 0x9000 \<or> status_word a1 b1 = 0x0000) \<and>
       sent_by (VerifyPINML 1 pin nSlot s) = Some (transmitted (calls s) @ [VERIFY pin])) \<and>
    (status_word a1 b1 = 0x6300 \<longrightarrow>
       (\<forall>d3 a3 b3 rest3. rest = Transmitted d3 a3 b3 # rest3 \<longrightarrow>
          map_option fst (VerifyPINML 1 pin nSlot s) = Some (status_word a3 b3) \<and>
          (map_option fst (VerifyPINML 1 pin nSlot s) = Some C_OK \<longleftrightarrow>
             status_word a3 b3 = 0x0000) \<and>
          sent_by (VerifyPINML 1 pin nSlot s) =
            Some (transmitted (calls s) @ [VERIFY pin, VERIFY []]))) \<and>
    (status_word a1 b1 = 0x6700 \<longrightarrow>
       (\<forall>d2 a2 b2 rest2. rest = Transmitted d2 a2 b2 # rest2 \<longrightarrow>
          (status_word a2 b2 \<noteq> 0x6300 \<longrightarrow>
             map_option fst (VerifyPINML 1 pin nSlot s) =
               Some (if status_word a2 b2 = 0x9000 then C_OK else status_word a2 b2) \<and>
             (map_option fst (VerifyPINML 1 pin nSlot s) = Some C_OK \<longleftrightarrow>
                status_word a2 b2 = 0x9000 \<or> status_word a2 b2 = 0x0000) \<and>
             sent_by (VerifyPINML 1 pin nSlot s) =
               Some (transmitted (calls s) @ [VERIFY pin, VERIFY (take 8 (pin @ replicate 8 0))])) \<and>
          (status_word a2 b2 = 0x6300 \<longrightarrow>
             (\<forall>d3 a3 b3 rest3. rest2 = Transmitted d3 a3 b3 # rest3 \<longrightarrow>
                map_option fst (VerifyPINML 1 pin nSlot s) = Some (status_word a3 b3) \<and>
                (map_option fst (VerifyPINML 1 pin nSlot s) = Some C_OK \<longleftrightarrow>
                   status_word a3 b3 = 0x0000) \<and>
                sent_by (VerifyPINML 1 pin nSlot s) =
                  Some (transmitted (calls s) @
                        [VERIFY pin, VERIFY (take 8 (pin @ replicate 8 0)), VERIFY []])))))"
proof -
  let ?s0 = "snd (BeginTransactionML nSlot s)"
  have s0: "script ?s0 = Transmitted d1 a1 b1 # rest"
    using assms(3) by (simp add: BeginTransactionML_def set_depth_def Let_def)
  have pad: "memcpy (replicate 8 0) pin (min (length pin) 8) = take 8 (pin @ replicate 8 0)"
    by (simp add: memcpy_def min_def)
  note first = SendAPDUML_verify [OF assms(2) s0, of nSlot 0]
  show ?thesis
    using assms(1)
    by (auto simp: VerifyPINML_def first pad SendAPDUML_verify8 SendAPDUML_verify0 sent_by_def
        code_defs Let_def)
qed


text \<open>
  Claim C4, as stated: \<open>OK\<close> is returned exactly when the final status word is \<open>9000\<close>, and
  the first VERIFY carries \<open>Lc\<close> equal to the length of the PIN. After a \<open>6300\<close> the status
  word of the \<open>Lc = 0\<close> query is returned untranslated, so a final \<open>9000\<close> comes back as
  \<open>0x9000\<close>, which is not \<open>C_OK\<close>; a status word \<open>0000\<close> is returned as it is, which
  is \<open>C_OK\<close>; and \<open>Lc\<close> is the length cut to a byte, so a PIN of 256 characters goes out
  as the empty query.
\<close>

theorem VerifyPINML_final_9000_counterexample:
  "map_option fst
     (VerifyPINML 1 [0x31, 0x32, 0x33, 0x34] 0
        (hal_init [Transmitted [] 0x63 0x00, Transmitted [] 0x90 0x00])) = Some 0x9000 \<and>
   (0x9000 :: int) \<noteq> C_OK \<and>
   map_option fst
     (VerifyPINML 1 [0x31, 0x32, 0x33, 0x34] 0 (hal_init [Transmitted [] 0x00 0x00])) = Some C_OK \<and>
   sent_by (VerifyPINML 1 (replicate 256 0x31) 0 (hal_init [Transmitted [] 0x90 0x00])) =
     Some [[0x00, 0x20, 0x00, 0x81, 0x00]]"
  by (simp add: VerifyPINML_def sent_by_def SendAPDUML_def build_apdu_def deliver_def
      status_word_def APDU_VERIFYPIN_def hal_init_def code_defs Let_def)

theorem VerifyPINML_sequence_witness:
  "map_option fst
     (VerifyPINML 1 [0x31, 0x32, 0x33, 0x34] 0
        (hal_init [Transmitted [] 0x67 0x00, Transmitted [] 0x63 0x00, Transmitted [] 0x63 0xC2]))
     = Some 0x63C2 \<and>
   sent_by
     (VerifyPINML 1 [0x31, 0x32, 0x33, 0x34] 0
        (hal_init [Transmitted [] 0x67 0x00, Transmitted [] 0x63 0x00, Transmitted [] 0x63 0xC2]))
     = Some [[0x00, 0x20, 0x00, 0x81, 0x04, 0x31, 0x32, 0x33, 0x34, 0x00],
             [0x00, 0x20, 0x00, 0x81, 0x08, 0x31, 0x32, 0x33, 0x34, 0x00, 0x00, 0x00, 0x00, 0x00],
             [0x00, 0x20, 0x00, 0x81, 0x00]]"
proof -
  let ?s = "hal_init [Transmitted [] 0x67 0x00, Transmitted [] 0x63 0x00, Transmitted [] 0x63 0xC2]"
  have i: "initialized ?s" by (simp add: hal_init_def)
  have l: "length [0x31, 0x32, 0x33, 0x34 :: byte] \<le> 250" by simp
  have scr: "script ?s = Transmitted [] 0x67 0x00 #
               [Transmitted [] 0x63 0x00, Transmitted [] 0x63 0xC2]"
    by (simp add: hal_init_def)
  have c: "calls ?s = []" by (simp add: hal_init_def)
  have r: "replicate 4 (0 :: byte) = [0, 0, 0, 0]" by (simp add: numeral_Bit0 replicate_add)
  from VerifyPINML_sequence [OF i l scr, of 0] c show ?thesis
    by (simp add: status_word_def VERIFY_def r)
qed

section \<open>Quoted-printable\<close>

text \<open>
  Claim C9, as stated: 80 consecutive \<open>A\<close> encode as 70 \<open>A\<close>, the soft line break and 10
  \<open>A\<close>. The encoder breaks the line when \<open>dwLineCounter\<close> has reached 72, not 70.
\<close>

theorem quoted_printable_wrap_counterexample:
  "StringToQuotedPrintable (replicate 80 CHR ''A'') \<noteq>
     replicate 70 CHR ''A'' @ [CHR ''='', CHR 0x0D, CHR 0x0A] @ replicate 10 CHR ''A''"
  by code_simp

text \<open>
  Claim C9, amended: the single byte \<open>0xA0\<close> encodes to \<open>=A0\<close>; the single byte \<open>=\<close> encodes
  to \<open>=3D\<close>; and 80 consecutive \<open>A\<close> encode to 72 \<open>A\<close>, then the soft line break
  \<open>=\r\n\<close>, then the remaining 8 \<open>A\<close>.
\<close>

theorem quoted_printable_cases:
  "StringToQuotedPrintable [CHR 0xA0] = ''=A0'' \<and>
   StringToQuotedPrintable ''='' = ''=3D'' \<and>
   StringToQuotedPrintable (replicate 80 CHR ''A'') =
     replicate 72 CHR ''A'' @ [CHR ''='', CHR 0x0D, CHR 0x0A] @ replicate 8 CHR ''A''"
  by code_simp

section \<open>DER emission\<close>

text \<open>
  Claim C1 at the node \<open>CAsn1Tagged(&Null, 32)\<close>: \<open>GetEncodedLength\<close> is 4, and \<open>GetEncoded\<close>
  writes the five bytes \<open>BF 20 02 05 00\<close>. For a tag number above 31 \<open>PutHeader\<close> writes the
  byte \<open>0x1F\<close> and then the packed tag, while \<open>GetEncodedLength\<close> counts the packed tag
  alone.
\<close>

theorem GetEncoded_long_tag:
  "GetEncodedLength (CAsn1Tagged CAsn1NULL 32) = 4 \<and>
   GetEncoded (CAsn1Tagged CAsn1NULL 32) 0 (replicate 8 None) =
     (True, [Some 0xBF, Some 0x20, Some 0x02, Some 0x05, Some 0x00, None, None, None]) \<and>
   written (snd (GetEncoded (CAsn1Tagged CAsn1NULL 32) 0 (replicate 8 None))) = 5"
  by code_simp

section \<open>UTCTime\<close>

text \<open>
  Claim C6 at the tuple (2024, 1, 2, 3, 55, 5): the UTCTime node holds \<open>240102031505Z\<close>,
  which reads back with minute 15. Entry 55 of the constructor's table is \<open>"15"\<close>. The
  same entry serves the year 1955 and the second 55.
\<close>

theorem utctime_55:
  "m_chData 2024 1 2 3 55 5 = ''240102031505Z'' \<and>
   parse_utctime (m_chData 2024 1 2 3 55 5) = Some (2024, 1, 2, 3, 15, 5) \<and>
   parse_utctime (m_chData 1955 1 2 3 4 5) = Some (2015, 1, 2, 3, 4, 5) \<and>
   GetEncoded (CAsn1UTCTime 2024 1 2 3 55 5) 0 (replicate 15 None) =
     (True, map Some [0x17, 0x0D, 0x32, 0x34, 0x30, 0x31, 0x30, 0x32, 0x30, 0x33,
                      0x31, 0x35, 0x30, 0x35, 0x5A])"
  by code_simp

section \<open>DER parsing\<close>

text \<open>
  Claim C8 at the slice \<open>04 85\<close>: the length byte \<open>0x85\<close> announces five length bytes, and
  the parser yields an item for the element, of length 0. The statement \<open>if (b > 4) v;\<close>
  lacks its \<open>return\<close>, and the \<open>switch\<close> has no case for 5. On \<open>04 85 01 00\<close> the parser goes
  on and reads the length bytes as the next element. The other three rejections are as
  the claim says: \<open>04 80 ..\<close>, \<open>1F ..\<close> and \<open>04 02 01\<close> yield no item.
\<close>

theorem der_parse_length_of_length_5:
  "der_parse [0x04, 0x85] = [\<lparr>item_tag = 4, item_value = 2, item_len = 0, item_fvalue = 0, item_flen = 2\<rparr>] \<and>
   der_parse [0x04, 0x85, 0x01, 0x00] =
     [\<lparr>item_tag = 4, item_value = 2, item_len = 0, item_fvalue = 0, item_flen = 2\<rparr>,
      \<lparr>item_tag = 1, item_value = 4, item_len = 0, item_fvalue = 2, item_flen = 2\<rparr>] \<and>
   der_parse [0x04, 0x80, 0x01, 0x00] = [] \<and>
   der_parse [0x1F, 0x01, 0x01, 0x00] = [] \<and>
   der_parse [0x04, 0x02, 0x01] = []"
  by code_simp

section \<open>Base64\<close>

lemma charTbl_bytes [code]:
  "charTbl =
     [0x41,0x42,0x43,0x44,0x45,0x46,0x47,0x48,0x49,0x4A,0x4B,0x4C,0x4D,0x4E,0x4F,0x50,
      0x51,0x52,0x53,0x54,0x55,0x56,0x57,0x58,0x59,0x5A,
      0x61,0x62,0x63,0x64,0x65,0x66,0x67,0x68,0x69,0x6A,0x6B,0x6C,0x6D,0x6E,0x6F,0x70,
      0x71,0x72,0x73,0x74,0x75,0x76,0x77,0x78,0x79,0x7A,
      0x30,0x31,0x32,0x33,0x34,0x35,0x36,0x37,0x38,0x39,0x2B,0x2F]"
  by (simp add: charTbl_def)

text \<open>
  Claim C7 at the 48 bytes \<open>4D .. 4D\<close> with the line length 64 of the constructor:
  \<open>B64EncodedLength\<close> gives 68, and \<open>Encode\<close> writes 66 bytes, the 64 characters and one
  line break. The last two bytes of the encoding are what the allocation held. When they
  are base64 characters, here \<open>AA\<close>, \<open>DecodedLength\<close> finds 66 characters, no multiple of 4,
  and the decoder gives nothing back. And a line length below 4 becomes 0 in
  \<open>SetLineLength\<close>; \<open>B64EncodedLength\<close> then divides by it.
\<close>

theorem base64_round_trip_48:
  "B64EncodedLength 48 64 = Some 68 \<and>
   Encode (replicate 48 0x4D) 64 =
     Some (concat (replicate 16 [0x54, 0x55, 0x31, 0x4E]) @ [0x0D, 0x0A]) \<and>
   encode_buffer 64 fresh_A (replicate 48 0x4D) =
     Some (concat (replicate 16 [0x54, 0x55, 0x31, 0x4E]) @ [0x0D, 0x0A, 0x41, 0x41]) \<and>
   decode_buffer fresh_A
     (concat (replicate 16 [0x54, 0x55, 0x31, 0x4E]) @ [0x0D, 0x0A, 0x41, 0x41]) = None \<and>
   SetLineLength 2 = 0 \<and>
   encode_buffer (SetLineLength 2) fresh_A [0x4D] = None"
  by code_simp

section \<open>The card commands of a signing session\<close>


lemma length_Padding: "length Padded = 256 \<Longrightarrow> length (Padding toPad 35 Padded) = 256"
  by (simp add: Padding_def memcpy_def Let_def)

lemma SignDataML_sign_fails:
  assumes H: "\<forall>toSign. length toSign = 256 \<longrightarrow>
     (\<exists>x sg s'. SignML wKid toSign (local_array s 256) slot s = Some ((x, sg), s') \<and> x \<noteq> C_OK)"
  shows "\<exists>s'. SignDataML SHA1 now slot wKid cert dati (Some blob) n s = Some ((False, Some blob, n), s')"
proof (cases "SHA1 dati")
  case None
  then show ?thesis by (simp add: SignDataML_def)
next
  case (Some digest1)
  note d1 = this
  show ?thesis
  proof (cases "issuer_and_serial cert")
    case None
    with d1 show ?thesis by (simp add: SignDataML_def)
  next
    case (Some isr)
    obtain issuer serial where isr: "isr = (issuer, serial)" by (cases isr)
    let ?attrs = "SignedAttributes now (take 20 digest1)"
    let ?cb = "unat (GetEncodedLength ?attrs)"
    obtain ok buf where ge: "GetEncoded ?attrs 0 (replicate ?cb None) = (ok, buf)"
      by (cases "GetEncoded ?attrs 0 (replicate ?cb None)")
    show ?thesis
    proof (cases "ok")
      case False
      with d1 Some isr ge show ?thesis by (simp add: SignDataML_def Let_def)
    next
      case True
      show ?thesis
      proof (cases "SHA1 (take ?cb (settle s buf))")
        case None
        with d1 Some isr ge True show ?thesis by (simp add: SignDataML_def Let_def)
      next
        case (Some digest2)
        let ?Padded = "Padding (sha1_prefix @ take 20 digest2) 35 (replicate 256 0)"
        have "length ?Padded = 256" by (simp add: length_Padding)
        with H obtain x sg s' where
          "SignML wKid ?Padded (local_array s 256) slot s = Some ((x, sg), s')" "x \<noteq> C_OK"
          by blast
        with d1 \<open>issuer_and_serial cert = Some isr\<close> isr ge True Some show ?thesis
          by (simp add: SignDataML_def Let_def)
      qed
    qed
  qed
qed


lemma SendAPDUML_plain:
  assumes "build_apdu cmd Lc None inBuffer = Some apdu" and "script s = Transmitted d a b # rest"
  shows "SendAPDUML nSlot cmd Lc None inBuffer None SW s =
     Some (\<lparr>rv_of = C_OK, Le_of = None, out_of = None, SW_of = status_word a b\<rparr>,
           log_call (SCardTransmit nSlot apdu) (s\<lparr>script := rest\<rparr>))"
  using assms by (simp add: SendAPDUML_def deliver_def Let_def)

lemma script_Begin [simp]: "script (snd (BeginTransactionML nSlot s)) = script s"
  by (simp add: BeginTransactionML_def set_depth_def Let_def)

lemma script_End [simp]: "script (snd (EndTransactionML nSlot s)) = script s"
  by (simp add: EndTransactionML_def set_depth_def Let_def)

lemma initialized_Begin [simp]: "initialized (snd (BeginTransactionML nSlot s)) = initialized s"
  by (simp add: BeginTransactionML_def set_depth_def Let_def)

lemma initialized_End [simp]: "initialized (snd (EndTransactionML nSlot s)) = initialized s"
  by (simp add: EndTransactionML_def set_depth_def Let_def)

lemma status_word_9000: "status_word 0x90 0x00 = 0x9000"
  by (simp add: status_word_def)

lemma SelectML_9000:
  assumes "script s = Transmitted d 0x90 0x00 # rest"
  shows "\<exists>s'. SelectML fid nSlot s = Some (C_OK, s') \<and> script s' = rest \<and>
           initialized s' = initialized s"
proof -
  have "SendAPDUML nSlot APDU_SELECT 2 None [hi, lo] None 0 (snd (BeginTransactionML nSlot s)) =
     Some (\<lparr>rv_of = C_OK, Le_of = None, out_of = None, SW_of = status_word 0x90 0x00\<rparr>,
           log_call (SCardTransmit nSlot [0x00, 0xa4, 0x00, 0x00, 0x02, hi, lo])
             ((snd (BeginTransactionML nSlot s))\<lparr>script := rest\<rparr>))" for hi lo
    using assms by (intro SendAPDUML_plain [OF select_apdu_any]) simp
  from this [of "ucast (drop_bit 8 (fid AND 0xff00))" "ucast (fid AND 0x00ff)"]
  show ?thesis unfolding SelectML_def Let_def by (simp add: status_word_9000)
qed

lemma mse_restore_apdu: "build_apdu APDU_MSE_RESTORE 0 None [] = Some [0x00, 0x22, 0xf3, 0x01, 0x00]"
  by (simp add: build_apdu_def APDU_MSE_RESTORE_def)

lemma mse_set_apdu:
  "build_apdu APDU_MSE 3 None [0x83, 0x01, k] = Some [0x00, 0x22, 0xf1, 0xb8, 0x03, 0x83, 0x01, k, 0x00]"
  by (simp add: build_apdu_def APDU_MSE_def)

lemma SignML_MSE_status_word:
  assumes i: "initialized s" and k: "kx \<le> 255"
    and scr: "script s = Transmitted d1 0x90 0x00 # Transmitted d2 0x90 0x00 #
                Transmitted d3 0x90 0x00 # Transmitted d4 a b # Transmitted d5 sw1 sw2 # rest"
    and sw: "status_word sw1 sw2 \<noteq> SW_OK"
  shows "\<exists>s'. SignML kx toSign Signed nSlot s = Some ((status_word sw1 sw2, Signed), s')"
proof -
  let ?s0 = "snd (BeginTransactionML nSlot s)"
  from scr have "script ?s0 = Transmitted d1 0x90 0x00 # Transmitted d2 0x90 0x00 #
                Transmitted d3 0x90 0x00 # Transmitted d4 a b # Transmitted d5 sw1 sw2 # rest"
    by simp
  from SelectML_9000 [OF this, of FID_MF nSlot] obtain s1 where
    s1: "SelectML FID_MF nSlot ?s0 = Some (C_OK, s1)"
      "script s1 = Transmitted d2 0x90 0x00 #
                Transmitted d3 0x90 0x00 # Transmitted d4 a b # Transmitted d5 sw1 sw2 # rest"
    by blast
  from SelectML_9000 [OF s1(2), of FID_SIAE_APP_DOMAIN nSlot] obtain s2 where
    s2: "SelectML FID_SIAE_APP_DOMAIN nSlot s1 = Some (C_OK, s2)"
      "script s2 = Transmitted d3 0x90 0x00 # Transmitted d4 a b # Transmitted d5 sw1 sw2 # rest"
    by blast
  from SelectML_9000 [OF s2(2), of FID_P11_APP_DOMAIN nSlot] obtain s3 where
    s3: "SelectML FID_P11_APP_DOMAIN nSlot s2 = Some (C_OK, s3)"
      "script s3 = Transmitted d4 a b # Transmitted d5 sw1 sw2 # rest"
    by blast
  note r4 = SendAPDUML_plain [OF mse_restore_apdu s3(2), where nSlot = nSlot and SW = 0]
  let ?s4 = "log_call (SCardTransmit nSlot [0x00, 0x22, 0xf3, 0x01, 0x00])
               (s3\<lparr>script := Transmitted d5 sw1 sw2 # rest\<rparr>)"
  have "script ?s4 = Transmitted d5 sw1 sw2 # rest" by simp
  note r5 = SendAPDUML_plain [OF mse_set_apdu [of "of_nat kx"] this, where nSlot = nSlot and SW = "status_word a b"]
  from i k s1 s2 s3 r4 r5 sw show ?thesis
    by (simp add: SignML_def Let_def)
qed

lemma SendAPDUML_answered:
  assumes "build_apdu cmd Lc pLe inBuffer = Some apdu" and "script s = Transmitted data a b # rest"
    and "deliver data a b pLe outBuffer = Some r"
  shows "SendAPDUML nSlot cmd Lc pLe inBuffer outBuffer SW s =
     Some (r, log_call (SCardTransmit nSlot apdu) (s\<lparr>script := rest\<rparr>))"
  using assms by (simp add: SendAPDUML_def Let_def)

lemma VerifyPINML_single:
  assumes i: "initialized s" and l: "length pin \<le> 250"
    and scr: "script s = Transmitted d a b # rest"
    and sw: "status_word a b \<noteq> 0x6700" "status_word a b \<noteq> SW_AUTH_FAILED"
  shows "\<exists>s'. VerifyPINML 1 pin nSlot s =
             Some (if status_word a b \<noteq> SW_OK then status_word a b else C_OK, s') \<and>
           script s' = rest \<and> initialized s'"
proof -
  from scr have "script (snd (BeginTransactionML nSlot s)) = Transmitted d a b # rest" by simp
  note r = SendAPDUML_verify [OF l this, of nSlot 0]
  from i sw show ?thesis by (simp add: VerifyPINML_def r Let_def)
qed

lemma read_record_apdu:
  "build_apdu (APDU_READRECORD OR 260) 0 (Some 1) [] = Some [0x00, 0xb2, 0x01, 0x04, 0x01]"
  by (simp add: build_apdu_def APDU_READRECORD_def)

lemma GetKeyID_records_first:
  assumes i: "initialized s" and scr: "script s = Transmitted [1] 0x90 0x00 # rest"
  shows "\<exists>s'. GetKeyID_records 1 status 1 nSlot s = Some (129, s') \<and> script s' = rest \<and>
           initialized s'"
proof -
  have d: "deliver [1] 0x90 0x00 (Some 1) (Some [status]) =
      Some \<lparr>rv_of = C_OK, Le_of = Some 1, out_of = Some [1], SW_of = 0x9000\<rparr>"
    by (simp add: deliver_def status_word_9000 memcpy_def)
  from scr have "script (snd (BeginTransactionML nSlot s)) = Transmitted [1] 0x90 0x00 # rest"
    by simp
  note r = SendAPDUML_answered [OF read_record_apdu this d, where nSlot = nSlot and SW = 0]
  from i show ?thesis
    by (subst GetKeyID_records.simps) (simp add: ReadRecordML_def r Let_def code_defs)
qed

lemma GetKeyIDML_first:
  assumes i: "initialized s"
    and scr: "script s = Transmitted d1 0x90 0x00 # Transmitted d2 0x90 0x00 #
                Transmitted d3 0x90 0x00 # Transmitted [1] 0x90 0x00 # rest"
  shows "\<exists>s'. GetKeyIDML nSlot s = Some (129, s') \<and> script s' = rest \<and> initialized s'"
proof -
  let ?s0 = "snd (BeginTransactionML nSlot s)"
  from scr have "script ?s0 = Transmitted d1 0x90 0x00 # Transmitted d2 0x90 0x00 #
                Transmitted d3 0x90 0x00 # Transmitted [1] 0x90 0x00 # rest"
    by simp
  from SelectML_9000 [OF this, of "0x0000" nSlot] i obtain s1 where
    s1: "SelectML 0x0000 nSlot ?s0 = Some (C_OK, s1)"
      "script s1 = Transmitted d2 0x90 0x00 # Transmitted d3 0x90 0x00 #
         Transmitted [1] 0x90 0x00 # rest" "initialized s1"
    by auto
  from SelectML_9000 [OF s1(2), of "0x1111" nSlot] s1(3) obtain s2 where
    s2: "SelectML 0x1111 nSlot s1 = Some (C_OK, s2)"
      "script s2 = Transmitted d3 0x90 0x00 # Transmitted [1] 0x90 0x00 # rest" "initialized s2"
    by auto
  from SelectML_9000 [OF s2(2), of "0x5f02" nSlot] s2(3) obtain s3 where
    s3: "SelectML 0x5f02 nSlot s2 = Some (C_OK, s3)"
      "script s3 = Transmitted [1] 0x90 0x00 # rest" "initialized s3"
    by auto
  from GetKeyID_records_first [OF s3(3) s3(2), where status = "junk s3 0" and nSlot = nSlot] obtain s4 where
    s4: "GetKeyID_records 1 (junk s3 0) 1 nSlot s3 = Some (129, s4)" "script s4 = rest"
      "initialized s4"
    by blast
  from s1 s2 s3 s4 show ?thesis
    by (simp add: GetKeyIDML_def Let_def del: GetKeyID_records.simps)
qed

lemma ReadBinaryML_short:
  assumes i: "initialized s" and len: "0 < len" "len < 128" and data: "length data = len"
    and apdu: "build_apdu (APDU_READBINARY OR ucast Offset) 0 (Some (of_nat len)) [] = Some apdu"
    and scr: "script s = Transmitted data 0x90 0x00 # rest"
  shows "\<exists>s'. ReadBinaryML Offset (Some buf) (Some len) nSlot s =
             Some ((C_OK, Some (data @ drop len buf), Some len), s') \<and>
           script s' = rest \<and> initialized s'"
proof -
  from len have u: "unat (of_nat len :: byte) = len" by (simp add: unat_of_nat)
  let ?tmp = "local_array s 256"
  have d: "deliver data 0x90 0x00 (Some (of_nat len)) (Some ?tmp) =
      Some \<lparr>rv_of = C_OK, Le_of = Some (of_nat len), out_of = Some (memcpy ?tmp data len),
            SW_of = 0x9000\<rparr>"
    using len data u by (auto simp: deliver_def status_word_9000 Let_def)
  from scr have "script (snd (BeginTransactionML nSlot s)) = Transmitted data 0x90 0x00 # rest"
    by simp
  note r = SendAPDUML_answered [OF apdu this d, where nSlot = nSlot and SW = 0]
  from i len data u show ?thesis
    by (subst ReadBinaryML_def, subst ReadBinary_blocks.simps)
       (simp add: r Let_def code_defs EXCHANGE_BUFFER_def memcpy_at_def memcpy_def)
qed

lemma read_apdu_0_2:
  "build_apdu (APDU_READBINARY OR ucast (0 :: 16 word)) 0 (Some (of_nat 2)) [] =
     Some [0x00, 0xb0, 0x00, 0x00, 0x02]"
  by (simp add: build_apdu_def APDU_READBINARY_def)

lemma read_apdu_2_21:
  "build_apdu (APDU_READBINARY OR ucast (2 :: 16 word)) 0 (Some (of_nat 21)) [] =
     Some [0x00, 0xb0, 0x00, 0x02, 0x15]"
  by (simp add: build_apdu_def APDU_READBINARY_def)

lemma GetCert_length:
  assumes i: "initialized s"
    and scr: "script s = Transmitted d 0x90 0x00 # Transmitted [21, 0] 0x90 0x00 # rest"
  shows "\<exists>s'. GetCert fid None 0 nSlot s = Some ((C_WRONG_LEN, None, 21), s') \<and>
           script s' = rest \<and> initialized s'"
proof -
  from SelectML_9000 [OF scr, of fid nSlot] i obtain s1 where
    s1: "SelectML fid nSlot s = Some (C_OK, s1)"
      "script s1 = Transmitted [21, 0] 0x90 0x00 # rest" "initialized s1"
    by auto
  from ReadBinaryML_short [OF s1(3) _ _ _ read_apdu_0_2 s1(2), of "local_array s1 2" nSlot]
  obtain s2 where
    s2: "ReadBinaryML 0 (Some (local_array s1 2)) (Some 2) nSlot s1 =
           Some ((C_OK, Some ([21, 0] @ drop 2 (local_array s1 2)), Some 2), s2)"
      "script s2 = rest" "initialized s2"
    by auto
  from s1 s2 show ?thesis by (simp add: GetCert_def Let_def)
qed

lemma GetCert_body:
  assumes i: "initialized s" and l: "length data = 21"
    and scr: "script s = Transmitted d 0x90 0x00 # Transmitted [21, 0] 0x90 0x00 #
                Transmitted data 0x90 0x00 # rest"
  shows "\<exists>s'. GetCert fid (Some buf) 21 nSlot s =
             Some ((C_OK, Some (data @ drop 21 buf), 21), s') \<and>
           script s' = rest \<and> initialized s'"
proof -
  from SelectML_9000 [OF scr, of fid nSlot] i obtain s1 where
    s1: "SelectML fid nSlot s = Some (C_OK, s1)"
      "script s1 = Transmitted [21, 0] 0x90 0x00 # Transmitted data 0x90 0x00 # rest"
      "initialized s1"
    by auto
  from ReadBinaryML_short [OF s1(3) _ _ _ read_apdu_0_2 s1(2), of "local_array s1 2" nSlot]
  obtain s2 where
    s2: "ReadBinaryML 0 (Some (local_array s1 2)) (Some 2) nSlot s1 =
           Some ((C_OK, Some ([21, 0] @ drop 2 (local_array s1 2)), Some 2), s2)"
      "script s2 = Transmitted data 0x90 0x00 # rest" "initialized s2"
    by auto
  from ReadBinaryML_short [OF s2(3) _ _ l read_apdu_2_21 s2(2), of buf nSlot]
  obtain s3 where
    s3: "ReadBinaryML 2 (Some buf) (Some 21) nSlot s2 =
           Some ((C_OK, Some (data @ drop 21 buf), Some 21), s3)"
      "script s3 = rest" "initialized s3"
    by auto
  from s1 s2 s3 show ?thesis by (simp add: GetCert_def Let_def)
qed

lemma GetCertificateML_length:
  assumes i: "initialized s"
    and scr: "script s = Transmitted d1 0x90 0x00 # Transmitted d2 0x90 0x00 #
                Transmitted d3 0x90 0x00 # Transmitted [1] 0x90 0x00 #
                Transmitted d 0x90 0x00 # Transmitted [21, 0] 0x90 0x00 # rest"
  shows "\<exists>s'. GetCertificateML None (Some 0) nSlot s = Some ((C_WRONG_LEN, None, Some 21), s') \<and>
           script s' = rest \<and> initialized s'"
proof -
  let ?s0 = "snd (BeginTransactionML nSlot s)"
  from scr have "script ?s0 = Transmitted d1 0x90 0x00 # Transmitted d2 0x90 0x00 #
                Transmitted d3 0x90 0x00 # Transmitted [1] 0x90 0x00 #
                Transmitted d 0x90 0x00 # Transmitted [21, 0] 0x90 0x00 # rest"
    by simp
  from GetKeyIDML_first [OF _ this, where nSlot = nSlot] i obtain s1 where
    s1: "GetKeyIDML nSlot ?s0 = Some (129, s1)"
      "script s1 = Transmitted d 0x90 0x00 # Transmitted [21, 0] 0x90 0x00 # rest"
      "initialized s1"
    by auto
  from GetCert_length [OF s1(3) s1(2), of "0x1a02" nSlot] obtain s2 where
    s2: "GetCert 0x1a02 None 0 nSlot s1 = Some ((C_WRONG_LEN, None, 21), s2)"
      "script s2 = rest" "initialized s2"
    by blast
  from s1 s2 show ?thesis by (simp add: GetCertificateML_def Let_def)
qed

lemma GetCertificateML_body:
  assumes i: "initialized s" and l: "length data = 21"
    and scr: "script s = Transmitted d1 0x90 0x00 # Transmitted d2 0x90 0x00 #
                Transmitted d3 0x90 0x00 # Transmitted [1] 0x90 0x00 #
                Transmitted d 0x90 0x00 # Transmitted [21, 0] 0x90 0x00 #
                Transmitted data 0x90 0x00 # rest"
  shows "\<exists>s'. GetCertificateML (Some buf) (Some 21) nSlot s =
             Some ((C_OK, Some (data @ drop 21 buf), Some 21), s') \<and>
           script s' = rest \<and> initialized s'"
proof -
  let ?s0 = "snd (BeginTransactionML nSlot s)"
  from scr have "script ?s0 = Transmitted d1 0x90 0x00 # Transmitted d2 0x90 0x00 #
                Transmitted d3 0x90 0x00 # Transmitted [1] 0x90 0x00 #
                Transmitted d 0x90 0x00 # Transmitted [21, 0] 0x90 0x00 #
                Transmitted data 0x90 0x00 # rest"
    by simp
  from GetKeyIDML_first [OF _ this, where nSlot = nSlot] i obtain s1 where
    s1: "GetKeyIDML nSlot ?s0 = Some (129, s1)"
      "script s1 = Transmitted d 0x90 0x00 # Transmitted [21, 0] 0x90 0x00 #
         Transmitted data 0x90 0x00 # rest"
      "initialized s1"
    by auto
  from GetCert_body [OF s1(3) l s1(2), of "0x1a02" buf nSlot] obtain s2 where
    s2: "GetCert 0x1a02 (Some buf) 21 nSlot s1 = Some ((C_OK, Some (data @ drop 21 buf), 21), s2)"
      "script s2 = rest" "initialized s2"
    by blast
  from s1 s2 show ?thesis by (simp add: GetCertificateML_def Let_def)
qed


lemma sign_apdu:
  assumes "128 \<le> length toSign"
  shows "build_apdu APDU_SIGN 129 (Some 128) (0 # take 128 toSign) =
     Some ([0x00, 0x2a, 0x80, 0x86, 129, 0] @ take 128 toSign @ [128])"
  using assms by (simp add: build_apdu_def APDU_SIGN_def)

lemma SignML_PSO_status_word:
  assumes i: "initialized s" and k: "kx \<le> 255" and l: "128 \<le> length toSign"
    and scr: "script s = Transmitted d1 0x90 0x00 # Transmitted d2 0x90 0x00 #
                Transmitted d3 0x90 0x00 # Transmitted d4 a b # Transmitted d5 0x90 0x00 #
                Transmitted [] sw1 sw2 # rest"
    and sw: "status_word sw1 sw2 \<noteq> SW_OK"
  shows "\<exists>s'. SignML kx toSign Signed nSlot s = Some ((status_word sw1 sw2, Signed), s')"
proof -
  let ?s0 = "snd (BeginTransactionML nSlot s)"
  from scr have "script ?s0 = Transmitted d1 0x90 0x00 # Transmitted d2 0x90 0x00 #
                Transmitted d3 0x90 0x00 # Transmitted d4 a b # Transmitted d5 0x90 0x00 #
                Transmitted [] sw1 sw2 # rest"
    by simp
  from SelectML_9000 [OF this, of FID_MF nSlot] obtain s1 where
    s1: "SelectML FID_MF nSlot ?s0 = Some (C_OK, s1)"
      "script s1 = Transmitted d2 0x90 0x00 # Transmitted d3 0x90 0x00 # Transmitted d4 a b #
         Transmitted d5 0x90 0x00 # Transmitted [] sw1 sw2 # rest"
    by blast
  from SelectML_9000 [OF s1(2), of FID_SIAE_APP_DOMAIN nSlot] obtain s2 where
    s2: "SelectML FID_SIAE_APP_DOMAIN nSlot s1 = Some (C_OK, s2)"
      "script s2 = Transmitted d3 0x90 0x00 # Transmitted d4 a b #
         Transmitted d5 0x90 0x00 # Transmitted [] sw1 sw2 # rest"
    by blast
  from SelectML_9000 [OF s2(2), of FID_P11_APP_DOMAIN nSlot] obtain s3 where
    s3: "SelectML FID_P11_APP_DOMAIN nSlot s2 = Some (C_OK, s3)"
      "script s3 = Transmitted d4 a b # Transmitted d5 0x90 0x00 # Transmitted [] sw1 sw2 # rest"
    by blast
  note r4 = SendAPDUML_plain [OF mse_restore_apdu s3(2), where nSlot = nSlot and SW = 0]
  let ?s4 = "log_call (SCardTransmit nSlot [0x00, 0x22, 0xf3, 0x01, 0x00])
               (s3\<lparr>script := Transmitted d5 0x90 0x00 # Transmitted [] sw1 sw2 # rest\<rparr>)"
  have "script ?s4 = Transmitted d5 0x90 0x00 # Transmitted [] sw1 sw2 # rest" by simp
  note r5 = SendAPDUML_plain [OF mse_set_apdu [of "of_nat kx"] this,
      where nSlot = nSlot and SW = "status_word a b"]
  let ?s5 = "log_call (SCardTransmit nSlot [0x00, 0x22, 0xf1, 0xb8, 0x03, 0x83, 0x01, of_nat kx, 0x00])
               (?s4\<lparr>script := Transmitted [] sw1 sw2 # rest\<rparr>)"
  have s5: "script ?s5 = Transmitted [] sw1 sw2 # rest" by simp
  have d: "deliver [] sw1 sw2 (Some 128) (Some Signed) =
      Some \<lparr>rv_of = C_OK, Le_of = Some 128, out_of = Some Signed, SW_of = status_word sw1 sw2\<rparr>"
    by (simp add: deliver_def)
  note r6 = SendAPDUML_answered [OF sign_apdu [OF l] s5 d,
      where nSlot = nSlot and SW = "status_word 0x90 0x00"]
  from i k s1 s2 s3 r4 r5 r6 sw show ?thesis
    by (simp add: SignML_def Let_def status_word_9000 code_defs)
qed

lemma sign_session_verify:
  assumes i: "initialized s" and l: "length pin \<le> 250"
    and scr: "script s = sign_session (Transmitted d a b) mse pso"
    and sw: "status_word a b \<noteq> 0x6700" "status_word a b \<noteq> SW_AUTH_FAILED"
  shows "\<exists>s1 s2 s3. SelectML 0x0000 nSlot s = Some (C_OK, s1) \<and>
           SelectML 0x1111 nSlot s1 = Some (C_OK, s2) \<and>
           VerifyPINML 1 pin nSlot s2 =
             Some (if status_word a b \<noteq> SW_OK then status_word a b else C_OK, s3) \<and>
           script s3 = drop 3 (sign_session (Transmitted d a b) mse pso) \<and> initialized s3"
proof -
  let ?rest = "drop 3 (sign_session (Transmitted d a b) mse pso)"
  from scr have "script s = Transmitted [] 0x90 0x00 # Transmitted [] 0x90 0x00 #
      Transmitted d a b # ?rest"
    by (simp add: sign_session_def answer_9000_def)
  from SelectML_9000 [OF this, of "0x0000" nSlot] i obtain s1 where
    s1: "SelectML 0x0000 nSlot s = Some (C_OK, s1)"
      "script s1 = Transmitted [] 0x90 0x00 # Transmitted d a b # ?rest" "initialized s1"
    by auto
  from SelectML_9000 [OF s1(2), of "0x1111" nSlot] s1(3) obtain s2 where
    s2: "SelectML 0x1111 nSlot s1 = Some (C_OK, s2)"
      "script s2 = Transmitted d a b # ?rest" "initialized s2"
    by auto
  from VerifyPINML_single [OF s2(3) l s2(2) sw, of nSlot] s1 s2 show ?thesis by blast
qed

lemma sign_session_certificate:
  assumes i: "initialized s" and l: "length pin \<le> 250"
    and scr: "script s = sign_session answer_9000 mse pso"
  shows "\<exists>s1 s2 s3 s4 s5 c s6. SelectML 0x0000 nSlot s = Some (C_OK, s1) \<and>
           SelectML 0x1111 nSlot s1 = Some (C_OK, s2) \<and>
           VerifyPINML 1 pin nSlot s2 = Some (C_OK, s3) \<and>
           GetKeyIDML nSlot s3 = Some (129, s4) \<and>
           GetCertificateML None (Some 0) nSlot s4 = Some ((C_WRONG_LEN, None, Some 21), s5) \<and>
           GetCertificateML (Some (local_array s5 22)) (Some 21) nSlot s5 =
             Some ((C_OK, Some c, Some 21), s6) \<and>
           initialized s6 \<and>
           script s6 = [answer_9000, answer_9000, answer_9000, answer_9000, mse, pso]"
proof -
  have sw: "status_word 0x90 0x00 \<noteq> 0x6700" "status_word 0x90 0x00 \<noteq> SW_AUTH_FAILED"
    by (simp_all add: status_word_9000 SW_AUTH_FAILED_def)
  from scr have "script s = sign_session (Transmitted [] 0x90 0x00) mse pso"
    by (simp add: answer_9000_def)
  from sign_session_verify [OF i l this sw, of nSlot] obtain s1 s2 s3 where
    s13: "SelectML 0x0000 nSlot s = Some (C_OK, s1)" "SelectML 0x1111 nSlot s1 = Some (C_OK, s2)"
      "VerifyPINML 1 pin nSlot s2 = Some (C_OK, s3)"
      "script s3 = drop 3 (sign_session (Transmitted [] 0x90 0x00) mse pso)" "initialized s3"
    by (auto simp: status_word_9000 code_defs)
  let ?tail = "[answer_9000, answer_9000, answer_9000, answer_9000, mse, pso]"
  let ?r5 = "Transmitted [] 0x90 0x00 # Transmitted [] 0x90 0x00 # Transmitted [] 0x90 0x00 #
      Transmitted [1] 0x90 0x00 # Transmitted [] 0x90 0x00 # Transmitted [21, 0] 0x90 0x00 #
      Transmitted small_certificate 0x90 0x00 # ?tail"
  let ?r4 = "Transmitted [] 0x90 0x00 # Transmitted [] 0x90 0x00 # Transmitted [] 0x90 0x00 #
      Transmitted [1] 0x90 0x00 # Transmitted [] 0x90 0x00 # Transmitted [21, 0] 0x90 0x00 # ?r5"
  from s13(4) have "script s3 = Transmitted [] 0x90 0x00 # Transmitted [] 0x90 0x00 #
      Transmitted [] 0x90 0x00 # Transmitted [1] 0x90 0x00 # ?r4"
    by (simp add: sign_session_def answer_9000_def key_id_answers_def)
  from GetKeyIDML_first [OF s13(5) this, of nSlot] obtain s4 where
    s4: "GetKeyIDML nSlot s3 = Some (129, s4)" "script s4 = ?r4" "initialized s4"
    by blast
  from GetCertificateML_length [OF s4(3) s4(2), of nSlot] obtain s5 where
    s5: "GetCertificateML None (Some 0) nSlot s4 = Some ((C_WRONG_LEN, None, Some 21), s5)"
      "script s5 = ?r5" "initialized s5"
    by blast
  have "length small_certificate = 21" by (simp add: small_certificate_def)
  from GetCertificateML_body [OF s5(3) this s5(2), of "local_array s5 22" nSlot] obtain s6 where
    s6: "GetCertificateML (Some (local_array s5 22)) (Some 21) nSlot s5 =
           Some ((C_OK, Some (small_certificate @ drop 21 (local_array s5 22)), Some 21), s6)"
      "script s6 = ?tail" "initialized s6"
    by blast
  from s13 s4 s5 s6 show ?thesis by blast
qed

lemma Initialize_again:
  "(if True then Initialize 0 (hal_init answers) else (C_OK, hal_init answers)) =
     (C_ALREADY_INITIALIZED, hal_init answers)"
  by (simp add: Initialize_def hal_init_def)

lemma PKCS7SignML_sign_refused:
  assumes init: "(if bInitialize then Initialize slot s else (C_OK, s)) = (iInitRes, s0)"
    and go: "\<not> (bInitialize \<and> iInitRes \<noteq> C_OK \<and> iInitRes \<noteq> C_ALREADY_INITIALIZED)"
    and sel1: "SelectML 0x0000 slot s0 = Some (r1, s1)"
    and sel2: "SelectML 0x1111 slot s1 = Some (r2, s2)"
    and ver: "VerifyPINML 1 pin slot s2 = Some (C_OK, s3)"
    and key: "GetKeyIDML slot s3 = Some (kid, s4)" "kid \<noteq> 0"
    and len: "GetCertificateML None (Some 0) slot s4 = Some ((c1, cert0, Some lenCer), s5)"
      "c1 = C_WRONG_LEN \<or> c1 = C_OK"
    and cer: "GetCertificateML (Some (local_array s5 (lenCer + 1))) (Some lenCer) slot s5
             = Some ((C_OK, Some certificato, Some lenCer2), s6)"
    and H: "\<forall>toSign. length toSign = 256 \<longrightarrow>
              (\<exists>x sg s7. SignML (unat kid) toSign (local_array s6 256) slot s6 = Some ((x, sg), s7) \<and>
                 x \<noteq> C_OK)"
  shows "map_option fst (PKCS7SignML SHA1 now pin slot (Some dati) writable bInitialize s)
           = Some (C_GENERIC_ERROR, None)"
proof -
  let ?n = "length dati + lenCer2 + 128 + 1024 * 8"
  from H SignDataML_sign_fails [of "unat kid" s6 slot SHA1 now "take lenCer2 certificato" dati
      "replicate ?n None" ?n]
  obtain s7 where
    "SignDataML SHA1 now slot (unat kid) (take lenCer2 certificato) dati
       (Some (replicate ?n None)) ?n s6 = Some ((False, Some (replicate ?n None), ?n), s7)"
    by blast
  with init go sel1 sel2 ver key len cer show ?thesis
    by (auto simp: PKCS7SignML_def Let_def)
qed

section \<open>PKCS#7 signing: the codes returned\<close>

text \<open>
  Claim C2, as stated: when the card reports a failure status word during the signing
  operation, \<open>PKCS7SignML\<close> returns that status word as it is. In the session below the PIN
  is accepted, the key identifier and the certificate are read, and the card answers the
  command PSO COMPUTE DIGITAL SIGNATURE with \<open>6982\<close>; the call returns \<open>0xFFFF\<close>.
\<close>

theorem PKCS7SignML_status_word_counterexample:
  "map_option fst
     (PKCS7SignML digest_zero (2024, 1, 2, 3, 4, 5) [0x31, 0x32, 0x33, 0x34] 0 (Some [0x48, 0x69])
        True True
        (hal_init (sign_session answer_9000 answer_9000 (Transmitted [] 0x69 0x82))))
     = Some (C_GENERIC_ERROR, None) \<and>
   C_GENERIC_ERROR \<noteq> 0x6982"
proof
  let ?s = "hal_init (sign_session answer_9000 answer_9000 (Transmitted [] 0x69 0x82))"
  let ?pin = "[0x31, 0x32, 0x33, 0x34] :: byte list"
  have i: "initialized ?s" by (simp add: hal_init_def)
  have scr: "script ?s = sign_session answer_9000 answer_9000 (Transmitted [] 0x69 0x82)"
    by (simp add: hal_init_def)
  have l: "length ?pin \<le> 250" by simp
  from sign_session_certificate [OF i l scr, of 0] obtain s1 s2 s3 s4 s5 c s6 where
    run: "SelectML 0x0000 0 ?s = Some (C_OK, s1)" "SelectML 0x1111 0 s1 = Some (C_OK, s2)"
      "VerifyPINML 1 ?pin 0 s2 = Some (C_OK, s3)" "GetKeyIDML 0 s3 = Some (129, s4)"
      "GetCertificateML None (Some 0) 0 s4 = Some ((C_WRONG_LEN, None, Some 21), s5)"
      "GetCertificateML (Some (local_array s5 22)) (Some 21) 0 s5 = Some ((C_OK, Some c, Some 21), s6)"
    and s6: "initialized s6"
      "script s6 = [answer_9000, answer_9000, answer_9000, answer_9000, answer_9000,
                    Transmitted [] 0x69 0x82]"
    by blast
  from s6(2) have scr6: "script s6 = Transmitted [] 0x90 0x00 # Transmitted [] 0x90 0x00 #
      Transmitted [] 0x90 0x00 # Transmitted [] 0x90 0x00 # Transmitted [] 0x90 0x00 #
      Transmitted [] 0x69 0x82 # []"
    by (simp add: answer_9000_def)
  have sw: "status_word 0x69 0x82 \<noteq> SW_OK" by (simp add: status_word_def SW_OK_def)
  have H: "\<forall>toSign. length toSign = 256 \<longrightarrow>
      (\<exists>x sg s7. SignML (unat (129 :: byte)) toSign (local_array s6 256) 0 s6 = Some ((x, sg), s7) \<and>
         x \<noteq> C_OK)"
  proof (intro allI impI)
    fix toSign :: "byte list"
    assume "length toSign = 256"
    then have "128 \<le> length toSign" by simp
    from SignML_PSO_status_word [OF s6(1) _ this scr6 sw, of 129 "local_array s6 256" 0]
    show "\<exists>x sg s7. SignML (unat (129 :: byte)) toSign (local_array s6 256) 0 s6 =
        Some ((x, sg), s7) \<and> x \<noteq> C_OK"
      by (auto simp: status_word_def C_OK_def)
  qed
  from run(6) have cer: "GetCertificateML (Some (local_array s5 (21 + 1))) (Some 21) 0 s5 =
      Some ((C_OK, Some c, Some 21), s6)"
    by simp
  show "map_option fst
     (PKCS7SignML digest_zero (2024, 1, 2, 3, 4, 5) ?pin 0 (Some [0x48, 0x69]) True True ?s)
     = Some (C_GENERIC_ERROR, None)"
    by (rule PKCS7SignML_sign_refused [OF Initialize_again _ run(1) run(2) run(3) run(4) _
          run(5) _ cer H]) simp_all
next
  show "C_GENERIC_ERROR \<noteq> 0x6982" by (simp add: C_GENERIC_ERROR_def)
qed

text \<open>
  Claim C2, amended: once the library is ready (no initialization was asked for, or
  \<open>Initialize\<close> gave \<open>C_OK\<close> or \<open>C_ALREADY_INITIALIZED\<close>) and the two SELECTs and the
  PIN verification have returned, with any codes for the SELECTs: a code of the PIN
  verification other than \<open>C_OK\<close> (a status word of the card among them) is returned as it
  is, with no output; and when the PIN is accepted, the key identifier and the certificate
  are read, and the card signature \<open>SignML\<close> gives a code other than \<open>C_OK\<close> (the status
  word of MSE SET or of PSO COMPUTE DIGITAL SIGNATURE among them), the call returns
  \<open>C_GENERIC_ERROR\<close>, with no output, not that code.
\<close>

theorem PKCS7SignML_error_codes:
  assumes init: "(if bInitialize then Initialize slot s else (C_OK, s)) = (iInitRes, s0)"
    and go: "\<not> (bInitialize \<and> iInitRes \<noteq> C_OK \<and> iInitRes \<noteq> C_ALREADY_INITIALIZED)"
    and sel1: "SelectML 0x0000 slot s0 = Some (r1, s1)"
    and sel2: "SelectML 0x1111 slot s1 = Some (r2, s2)"
    and ver: "VerifyPINML 1 pin slot s2 = Some (rv, s3)"
  shows
    "(rv \<noteq> C_OK \<longrightarrow>
        map_option fst (PKCS7SignML SHA1 now pin slot (Some dati) writable bInitialize s)
          = Some (rv, None)) \<and>
     (rv = C_OK \<longrightarrow>
        (\<forall>kid s4 c1 cert0 lenCer s5 certificato lenCer2 s6.
           GetKeyIDML slot s3 = Some (kid, s4) \<and> kid \<noteq> 0 \<and>
           GetCertificateML None (Some 0) slot s4 = Some ((c1, cert0, Some lenCer), s5) \<and>
           (c1 = C_WRONG_LEN \<or> c1 = C_OK) \<and>
           GetCertificateML (Some (local_array s5 (lenCer + 1))) (Some lenCer) slot s5
             = Some ((C_OK, Some certificato, Some lenCer2), s6) \<and>
           (\<forall>toSign. length toSign = 256 \<longrightarrow>
              (\<exists>x sg s7. SignML (unat kid) toSign (local_array s6 256) slot s6 = Some ((x, sg), s7) \<and>
                 x \<noteq> C_OK))
           \<longrightarrow> map_option fst (PKCS7SignML SHA1 now pin slot (Some dati) writable bInitialize s)
                 = Some (C_GENERIC_ERROR, None)))"
proof (intro conjI impI allI)
  assume "rv \<noteq> C_OK"
  with init go sel1 sel2 ver
  show "map_option fst (PKCS7SignML SHA1 now pin slot (Some dati) writable bInitialize s)
          = Some (rv, None)"
    by (auto simp: PKCS7SignML_def)
next
  fix kid s4 c1 cert0 lenCer s5 certificato lenCer2 s6
  assume ok: "rv = C_OK"
    and chain: "GetKeyIDML slot s3 = Some (kid, s4) \<and> kid \<noteq> 0 \<and>
           GetCertificateML None (Some 0) slot s4 = Some ((c1, cert0, Some lenCer), s5) \<and>
           (c1 = C_WRONG_LEN \<or> c1 = C_OK) \<and>
           GetCertificateML (Some (local_array s5 (lenCer + 1))) (Some lenCer) slot s5
             = Some ((C_OK, Some certificato, Some lenCer2), s6) \<and>
           (\<forall>toSign. length toSign = 256 \<longrightarrow>
              (\<exists>x sg s7. SignML (unat kid) toSign (local_array s6 256) slot s6 = Some ((x, sg), s7) \<and>
                 x \<noteq> C_OK))"
  from ver ok have ver': "VerifyPINML 1 pin slot s2 = Some (C_OK, s3)" by simp
  from chain show "map_option fst (PKCS7SignML SHA1 now pin slot (Some dati) writable bInitialize s)
          = Some (C_GENERIC_ERROR, None)"
    by (intro PKCS7SignML_sign_refused [OF init go sel1 sel2 ver']) blast+
qed

theorem PKCS7SignML_error_codes_witness:
  "map_option fst
     (PKCS7SignML digest_zero (2024, 1, 2, 3, 4, 5) [0x31, 0x32, 0x33, 0x34] 0 (Some [0x48, 0x69])
        True True
        (hal_init (sign_session (Transmitted [] 0x69 0x83) answer_9000 answer_9000)))
     = Some (0x6983, None) \<and>
   map_option fst
     (PKCS7SignML digest_zero (2024, 1, 2, 3, 4, 5) [0x31, 0x32, 0x33, 0x34] 0 (Some [0x48, 0x69])
        True True
        (hal_init (sign_session answer_9000 (Transmitted [] 0x6A 0x88) answer_9000)))
     = Some (C_GENERIC_ERROR, None)"
proof
  let ?pin = "[0x31, 0x32, 0x33, 0x34] :: byte list"
  have l: "length ?pin \<le> 250" by simp
  have go: "\<not> (True \<and> C_ALREADY_INITIALIZED \<noteq> C_OK \<and>
                 C_ALREADY_INITIALIZED \<noteq> C_ALREADY_INITIALIZED)"
    by simp
  {
    let ?s = "hal_init (sign_session (Transmitted [] 0x69 0x83) answer_9000 answer_9000)"
    have i: "initialized ?s" by (simp add: hal_init_def)
    have scr: "script ?s = sign_session (Transmitted [] 0x69 0x83) answer_9000 answer_9000"
      by (simp add: hal_init_def)
    have sw: "status_word 0x69 0x83 \<noteq> 0x6700" "status_word 0x69 0x83 \<noteq> SW_AUTH_FAILED"
      "status_word 0x69 0x83 \<noteq> SW_OK" "status_word 0x69 0x83 = 0x6983"
      by (simp_all add: status_word_def SW_AUTH_FAILED_def SW_OK_def)
    from sign_session_verify [OF i l scr sw(1,2), of 0] sw(3,4) obtain s1 s2 s3 where
      run: "SelectML 0x0000 0 ?s = Some (C_OK, s1)" "SelectML 0x1111 0 s1 = Some (C_OK, s2)"
        "VerifyPINML 1 ?pin 0 s2 = Some (0x6983, s3)"
      by auto
    from PKCS7SignML_error_codes [OF Initialize_again go run, of digest_zero "(2024, 1, 2, 3, 4, 5)"
        "[0x48, 0x69]" True]
    have "map_option fst
       (PKCS7SignML digest_zero (2024, 1, 2, 3, 4, 5) ?pin 0 (Some [0x48, 0x69]) True True ?s)
       = Some (0x6983, None)"
      by (simp add: C_OK_def)
  }
  then show "map_option fst
     (PKCS7SignML digest_zero (2024, 1, 2, 3, 4, 5) [0x31, 0x32, 0x33, 0x34] 0 (Some [0x48, 0x69])
        True True
        (hal_init (sign_session (Transmitted [] 0x69 0x83) answer_9000 answer_9000)))
     = Some (0x6983, None)" .
next
  let ?pin = "[0x31, 0x32, 0x33, 0x34] :: byte list"
  let ?s = "hal_init (sign_session answer_9000 (Transmitted [] 0x6A 0x88) answer_9000)"
  have l: "length ?pin \<le> 250" by simp
  have go: "\<not> (True \<and> C_ALREADY_INITIALIZED \<noteq> C_OK \<and>
                 C_ALREADY_INITIALIZED \<noteq> C_ALREADY_INITIALIZED)"
    by simp
  have i: "initialized ?s" by (simp add: hal_init_def)
  have scr: "script ?s = sign_session answer_9000 (Transmitted [] 0x6A 0x88) answer_9000"
    by (simp add: hal_init_def)
  from sign_session_certificate [OF i l scr, of 0] obtain s1 s2 s3 s4 s5 c s6 where
    run: "SelectML 0x0000 0 ?s = Some (C_OK, s1)" "SelectML 0x1111 0 s1 = Some (C_OK, s2)"
      "VerifyPINML 1 ?pin 0 s2 = Some (C_OK, s3)"
    and rd: "GetKeyIDML 0 s3 = Some (129, s4)"
      "GetCertificateML None (Some 0) 0 s4 = Some ((C_WRONG_LEN, None, Some 21), s5)"
      "GetCertificateML (Some (local_array s5 22)) (Some 21) 0 s5 = Some ((C_OK, Some c, Some 21), s6)"
    and s6: "initialized s6"
      "script s6 = [answer_9000, answer_9000, answer_9000, answer_9000,
                    Transmitted [] 0x6A 0x88, answer_9000]"
    by blast
  from s6(2) have scr6: "script s6 = Transmitted [] 0x90 0x00 # Transmitted [] 0x90 0x00 #
      Transmitted [] 0x90 0x00 # Transmitted [] 0x90 0x00 # Transmitted [] 0x6A 0x88 #
      [answer_9000]"
    by (simp add: answer_9000_def)
  have sw: "status_word 0x6A 0x88 \<noteq> SW_OK" by (simp add: status_word_def SW_OK_def)
  have H: "\<forall>toSign. length toSign = 256 \<longrightarrow>
      (\<exists>x sg s7. SignML (unat (129 :: byte)) toSign (local_array s6 256) 0 s6 = Some ((x, sg), s7) \<and>
         x \<noteq> C_OK)"
  proof (intro allI impI)
    fix toSign :: "byte list"
    from SignML_MSE_status_word [OF s6(1) _ scr6 sw, of 129 toSign "local_array s6 256" 0]
    show "\<exists>x sg s7. SignML (unat (129 :: byte)) toSign (local_array s6 256) 0 s6 =
        Some ((x, sg), s7) \<and> x \<noteq> C_OK"
      by (auto simp: status_word_def C_OK_def)
  qed
  from rd(3) have cer: "GetCertificateML (Some (local_array s5 (21 + 1))) (Some 21) 0 s5 =
      Some ((C_OK, Some c, Some 21), s6)"
    by simp
  from PKCS7SignML_error_codes [OF Initialize_again go run, of digest_zero "(2024, 1, 2, 3, 4, 5)"
      "[0x48, 0x69]" True]
  have "\<forall>kid s4 c1 cert0 lenCer s5 certificato lenCer2 s6.
           GetKeyIDML 0 s3 = Some (kid, s4) \<and> kid \<noteq> 0 \<and>
           GetCertificateML None (Some 0) 0 s4 = Some ((c1, cert0, Some lenCer), s5) \<and>
           (c1 = C_WRONG_LEN \<or> c1 = C_OK) \<and>
           GetCertificateML (Some (local_array s5 (lenCer + 1))) (Some lenCer) 0 s5
             = Some ((C_OK, Some certificato, Some lenCer2), s6) \<and>
           (\<forall>toSign. length toSign = 256 \<longrightarrow>
              (\<exists>x sg s7. SignML (unat kid) toSign (local_array s6 256) 0 s6 = Some ((x, sg), s7) \<and>
                 x \<noteq> C_OK))
           \<longrightarrow> map_option fst
                 (PKCS7SignML digest_zero (2024, 1, 2, 3, 4, 5) ?pin 0 (Some [0x48, 0x69]) True True ?s)
                 = Some (C_GENERIC_ERROR, None)"
    by blast
  from this [rule_format, of 129 s4 C_WRONG_LEN None 21 s5 c 21 s6] rd(1,2) cer H
  show "map_option fst
     (PKCS7SignML digest_zero (2024, 1, 2, 3, 4, 5) ?pin 0 (Some [0x48, 0x69]) True True ?s)
     = Some (C_GENERIC_ERROR, None)"
    by simp
qed

end
